theory Spec2Isabelle
  imports Main
begin

section \<open>Values of pkg/apiserver/resthandler.go\<close>

text \<open>
  The REST handler of the API server dispatches a classified request to a storage
  backend, asks the admission controller before every mutation, waits for the backend's
  result behind an operation, and writes self-links into the objects it returns.

  Every collaborator of the handler is an interface value or a function of another
  package. An interface is a record of functions here; a call that returns an error
  returns a sum, with \<open>Inl\<close> for the error. A call that mutates its argument in place
  (the objects are pointers in Go) returns the argument as it is after the call.
\<close>

text \<open>
  An error value. \<open>MethodNotSupported kind action\<close> is what
  \<^verbatim>\<open>errors.NewMethodNotSupported(kind, action)\<close> builds; \<open>Failure msg\<close> is any other error.
\<close>

datatype error = MethodNotSupported string string | Failure string

text \<open>
  \<^verbatim>\<open>*url.URL\<close>, with the fields the handler reads or writes. The query is kept as its
  list of key/value pairs: \<^verbatim>\<open>RawQuery = ""\<close> is the empty list, and the encoding of
  \<^verbatim>\<open>url.Values\<close> with the single key \<^verbatim>\<open>namespace\<close> is the one-pair list. Rendering the
  URL as text (\<^verbatim>\<open>String\<close>, \<^verbatim>\<open>Encode\<close>) is the standard library's and is not unfolded:
  the self-linker receives the URL value.
\<close>

record url =
  Host :: string
  Path :: string
  RawQuery :: "(string \<times> string) list"
  Fragment :: string

text \<open>\<^verbatim>\<open>url.Values.Get\<close>: the first value of the key, the empty string without one.\<close>

definition Get :: "(string \<times> string) list \<Rightarrow> string \<Rightarrow> string" where
  "Get query key = (case map_of query key of Some v \<Rightarrow> v | None \<Rightarrow> [])"

text \<open>
  \<^verbatim>\<open>*http.Request\<close>. \<open>Body\<close> is what reading the body to its end yields
  (\<^verbatim>\<open>readBody\<close>): the bytes, or the read error.
\<close>

record request =
  Method :: string
  URL :: url
  Body :: "error + string"

text \<open>
  \<^verbatim>\<open>api.Status\<close>, the one object type the handler looks into, and \<^verbatim>\<open>runtime.Object\<close>:
  either a status or a resource of the backend, whose content the handler never reads.
\<close>

record api_Status =
  Status :: string
  Code :: int
  Reason :: string
  Details_ID :: nat
  Details_Kind :: string

datatype 'r Object = StatusObject api_Status | Resource 'r

record 'r RESTResult =
  Object :: "'r Object"
  Created :: bool

text \<open>
  The receive-only channel a mutating backend call returns. \<open>Delivers d r\<close> sends \<open>r\<close>
  after \<open>d\<close> units of time; \<open>Silent\<close> sends nothing while the request is served.
\<close>

datatype 'r chan = Delivers nat "'r RESTResult" | Silent

type_synonym selector = string

text \<open>
  \<^verbatim>\<open>RESTStorage\<close> and its five optional capabilities. The type assertion
  \<^verbatim>\<open>storage.(RESTLister)\<close> succeeds exactly when the field holds a function. The context
  carries the namespace only.
\<close>

record 'r RESTStorage =
  New :: "'r Object"
  Lister :: "(string \<Rightarrow> selector \<Rightarrow> selector \<Rightarrow> error + 'r Object) option"
  Getter :: "(string \<Rightarrow> string \<Rightarrow> error + 'r Object) option"
  Creater :: "(string \<Rightarrow> 'r Object \<Rightarrow> error + 'r chan) option"
  Updater :: "(string \<Rightarrow> 'r Object \<Rightarrow> error + 'r chan) option"
  Deleter :: "(string \<Rightarrow> string \<Rightarrow> error + 'r chan) option"

text \<open>\<^verbatim>\<open>admission.NewAttributesRecord(obj, namespace, kind, operation)\<close>.\<close>

record 'r attributes =
  GetObject :: "'r Object option"
  GetNamespace :: string
  GetKind :: string
  GetOperation :: string

text \<open>\<^verbatim>\<open>runtime.SelfLinker\<close>.\<close>

record 'r SelfLinker =
  Name :: "'r Object \<Rightarrow> error + string"
  Namespace :: "'r Object \<Rightarrow> error + string"
  SetSelfLink :: "'r Object \<Rightarrow> url \<Rightarrow> error + 'r Object"

text \<open>
  \<^verbatim>\<open>RESTHandler\<close>: the codec (its \<^verbatim>\<open>DecodeInto\<close>), the prefix of every self-link, the
  self-linker, the operation registry (the last ID it gave out) and the admission
  controller (\<open>None\<close> admits; it answers and leaves the object as it is). The map of the
  storages and the resolver of the request, which \<^verbatim>\<open>ServeHTTP\<close> alone reads to find the
  arguments of \<^verbatim>\<open>handleRESTStorage\<close>, are left out.
\<close>

record 'r RESTHandler =
  codec :: "string \<Rightarrow> 'r Object \<Rightarrow> error + 'r Object"
  canonicalPrefix :: string
  selfLinker :: "'r SelfLinker"
  ops :: nat
  admissionControl :: "'r attributes \<Rightarrow> error option"

text \<open>
  Functions that the handler calls and whose source is not at hand: \<^verbatim>\<open>parseTimeout\<close> and
  the status code that \<^verbatim>\<open>errorJSON\<close> derives from an error, of this package;
  \<^verbatim>\<open>labels.ParseSelector\<close>; \<^verbatim>\<open>runtime.IsListType\<close>, \<^verbatim>\<open>runtime.ExtractList\<close> and
  \<^verbatim>\<open>runtime.SetList\<close>. They are parameters of the model: every theorem holds for each
  choice of them.

  The objects that \<^verbatim>\<open>runtime.ExtractList\<close> returns may point into the list or be copies
  of its items; the source at hand does not say which. \<open>inPlace list items\<close> is the list
  as it is once the extracted objects have become \<open>items\<close>: the list with these items
  where they point into it, the list itself where they are copies.
\<close>

record 'r deps =
  parseTimeout :: "string \<Rightarrow> nat"
  ParseSelector :: "string \<Rightarrow> error + selector"
  IsListType :: "'r Object \<Rightarrow> bool"
  ExtractList :: "'r Object \<Rightarrow> error + 'r Object list"
  SetList :: "'r Object \<Rightarrow> 'r Object list \<Rightarrow> error + 'r Object"
  inPlace :: "'r Object \<Rightarrow> 'r Object list \<Rightarrow> 'r Object"
  errorCode :: "error \<Rightarrow> int"

section \<open>Paths\<close>

text \<open>\<^verbatim>\<open>strings.Split(s, "/")\<close>: the pieces between the separators, one piece at least.\<close>

fun split_on :: "char \<Rightarrow> string \<Rightarrow> string list" where
  "split_on c [] = [[]]"
| "split_on c (x # xs) =
     (if x = c then [] # split_on c xs
      else (case split_on c xs of [] \<Rightarrow> [[x]] | w # ws \<Rightarrow> (x # w) # ws))"

text \<open>\<^verbatim>\<open>strings.Trim(s, "/")\<close>.\<close>

definition trim_slashes :: "string \<Rightarrow> string" where
  "trim_slashes s =
     rev (dropWhile (\<lambda>c. c = CHR ''/'') (rev (dropWhile (\<lambda>c. c = CHR ''/'') s)))"

text \<open>
  Modelled from the spec: \<^verbatim>\<open>splitPath\<close> is a function of this package that is missing
  from the sources at hand. The spec speaks of "the first path segment of the original
  request"; the segments are the pieces of the path between its slashes, the slashes at
  both ends dropped, and a path of slashes only has no segment.
\<close>

definition splitPath :: "string \<Rightarrow> string list" where
  "splitPath path =
     (let path = trim_slashes path in
      if path = [] then [] else split_on (CHR ''/'') path)"

text \<open>
  \<^verbatim>\<open>path.Clean\<close> and \<^verbatim>\<open>path.Join\<close> of the standard library, on the elements of the path:
  empty elements and \<^verbatim>\<open>.\<close> go, \<^verbatim>\<open>..\<close> removes the element before it (at the root it goes
  itself), and the empty result is \<^verbatim>\<open>.\<close>.
\<close>

definition clean_step :: "bool \<Rightarrow> string list \<Rightarrow> string \<Rightarrow> string list" where
  "clean_step rooted out seg =
     (if seg = [] \<or> seg = ''.'' then out
      else if seg = ''..'' then
        (if out \<noteq> [] \<and> last out \<noteq> ''..'' then butlast out
         else if rooted then out else out @ [seg])
      else out @ [seg])"

fun join_slash :: "string list \<Rightarrow> string" where
  "join_slash [] = []"
| "join_slash [e] = e"
| "join_slash (e # es) = e @ ''/'' @ join_slash es"

definition path_Clean :: "string \<Rightarrow> string" where
  "path_Clean path =
     (let rooted = (path \<noteq> [] \<and> hd path = CHR ''/'');
          out = foldl (clean_step rooted) [] (split_on (CHR ''/'') path);
          cleaned = (if rooted then ''/'' else []) @ join_slash out
      in if cleaned = [] then ''.'' else cleaned)"

definition path_Join :: "string list \<Rightarrow> string" where
  "path_Join elem =
     (let rest = dropWhile (\<lambda>e. e = []) elem in
      if rest = [] then [] else path_Clean (join_slash rest))"

section \<open>Self-links\<close>

text \<open>
  What a function that returns an \<^verbatim>\<open>error\<close> and mutates its argument does: it returns
  nil (\<open>Ok\<close>), returns an error (\<open>Err\<close>), both with the argument as the call left it, or
  it panics.
\<close>

datatype 'a ret = Ok 'a | Err error 'a | Panic

text \<open>
  \<^verbatim>\<open>setSelfLinkAddName\<close>: the link is the request's path under the prefix with the
  object's name appended. The namespace becomes a query parameter unless the first
  segment of the request's path is \<^verbatim>\<open>ns\<close>; \<^verbatim>\<open>parts[0]\<close> of a path without segments is an
  index out of range.
\<close>

definition setSelfLinkAddName ::
  "'r RESTHandler \<Rightarrow> 'r Object \<Rightarrow> request \<Rightarrow> 'r Object ret" where
  "setSelfLinkAddName h obj req =
     (case Name (selfLinker h) obj of
        Inl err \<Rightarrow> Err err obj
      | Inr name \<Rightarrow>
     (case Namespace (selfLinker h) obj of
        Inl err \<Rightarrow> Err err obj
      | Inr namespace \<Rightarrow>
     (let newURL = (URL req)\<lparr>Path := path_Join [canonicalPrefix h, Path (URL req), name],
                             RawQuery := [], Fragment := []\<rparr>;
          withQuery =
            (if length namespace > 0 then
               (case splitPath (Path (URL req)) of
                  [] \<Rightarrow> None
                | part0 # _ \<Rightarrow>
                    Some (if part0 \<noteq> ''ns''
                          then newURL\<lparr>RawQuery := [(''namespace'', namespace)]\<rparr>
                          else newURL))
             else Some newURL)
      in case withQuery of
           None \<Rightarrow> Panic
         | Some newURL \<Rightarrow>
             (case SetSelfLink (selfLinker h) obj newURL of
                Inl err \<Rightarrow> Err err obj
              | Inr obj' \<Rightarrow> Ok obj'))))"

text \<open>
  The loop of \<^verbatim>\<open>setSelfLink\<close> over the items of a list, in order; it stops at the first
  item whose link cannot be set. The state it returns is the items as the loop left them.
\<close>

fun setSelfLinkItems ::
  "'r RESTHandler \<Rightarrow> 'r Object list \<Rightarrow> request \<Rightarrow> 'r Object list ret" where
  "setSelfLinkItems h [] req = Ok []"
| "setSelfLinkItems h (item # items) req =
     (case setSelfLinkAddName h item req of
        Err err item' \<Rightarrow> Err err (item' # items)
      | Panic \<Rightarrow> Panic
      | Ok item' \<Rightarrow>
          (case setSelfLinkItems h items req of
             Ok items' \<Rightarrow> Ok (item' # items')
           | Err err items' \<Rightarrow> Err err (item' # items')
           | Panic \<Rightarrow> Panic))"

text \<open>
  The second half of \<^verbatim>\<open>setSelfLink\<close>, after the object's own link is set: an object
  that is not a list is done; the items of a list are extracted, linked in order and
  written back. The links are set on the extracted objects, so that the list is seen
  through \<open>inPlace\<close> from then on.
\<close>

definition setSelfLinkList ::
  "'r deps \<Rightarrow> 'r RESTHandler \<Rightarrow> 'r Object \<Rightarrow> request \<Rightarrow> 'r Object ret" where
  "setSelfLinkList D h obj req =
     (if \<not> IsListType D obj then Ok obj
      else
        (case ExtractList D obj of
           Inl err \<Rightarrow> Err err obj
         | Inr items \<Rightarrow>
             (case setSelfLinkItems h items req of
                Err err items' \<Rightarrow> Err err (inPlace D obj items')
              | Panic \<Rightarrow> Panic
              | Ok items' \<Rightarrow>
                  (case SetList D (inPlace D obj items') items' of
                     Inl err \<Rightarrow> Err err (inPlace D obj items')
                   | Inr obj' \<Rightarrow> Ok obj'))))"

text \<open>
  \<^verbatim>\<open>setSelfLink\<close>: the link is the request's path under the prefix, with the namespace
  as a query parameter under the same rule as above. The object's own link is set in
  place before its items are looked at.
\<close>

definition setSelfLink ::
  "'r deps \<Rightarrow> 'r RESTHandler \<Rightarrow> 'r Object \<Rightarrow> request \<Rightarrow> 'r Object ret" where
  "setSelfLink D h obj req =
     (case Namespace (selfLinker h) obj of
        Inl err \<Rightarrow> Err err obj
      | Inr namespace \<Rightarrow>
     (let newURL = (URL req)\<lparr>Path := path_Join [canonicalPrefix h, Path (URL req)],
                             RawQuery := [], Fragment := []\<rparr>;
          withQuery =
            (if length namespace > 0 then
               (case splitPath (Path (URL req)) of
                  [] \<Rightarrow> None
                | part0 # _ \<Rightarrow>
                    Some (if part0 \<noteq> ''ns''
                          then newURL\<lparr>RawQuery := [(''namespace'', namespace)]\<rparr>
                          else newURL))
             else Some newURL)
      in case withQuery of
           None \<Rightarrow> Panic
         | Some newURL \<Rightarrow>
             (case SetSelfLink (selfLinker h) obj newURL of
                Inl err \<Rightarrow> Err err obj
              | Inr obj' \<Rightarrow> setSelfLinkList D h obj' req)))"

text \<open>
  The URL that the two functions above hand to \<^verbatim>\<open>SetSelfLink\<close> for an object of the given
  namespace: the URL of the request with the joined path (the prefix, the path of the
  request and, for \<^verbatim>\<open>setSelfLinkAddName\<close>, the name), the namespace as its query unless
  the namespace is empty or the first segment is \<^verbatim>\<open>ns\<close>, and no fragment. It is \<open>None\<close>
  where \<^verbatim>\<open>parts[0]\<close> panics.
\<close>

definition link_url :: "'r RESTHandler \<Rightarrow> request \<Rightarrow> string list \<Rightarrow> string \<Rightarrow> url option" where
  "link_url h req suffix namespace =
     (case splitPath (Path (URL req)) of
        [] \<Rightarrow>
          if namespace = []
          then Some \<lparr>Host = Host (URL req),
                     Path = path_Join ([canonicalPrefix h, Path (URL req)] @ suffix),
                     RawQuery = [], Fragment = []\<rparr>
          else None
      | part0 # _ \<Rightarrow>
          Some \<lparr>Host = Host (URL req),
                Path = path_Join ([canonicalPrefix h, Path (URL req)] @ suffix),
                RawQuery = (if namespace \<noteq> [] \<and> part0 \<noteq> ''ns''
                            then [(''namespace'', namespace)] else []),
                Fragment = []\<rparr>)"

section \<open>What a request does\<close>

text \<open>
  The calls the handler makes on its collaborators, in the order it makes them:
  the selector parser, the body reader, the codec, the admission controller, the five
  backend capabilities, the synchronous self-link of List and Get, the operation
  registry and the wait on the operation, the callback of an operation, and the error
  log of \<^verbatim>\<open>curry\<close>.
\<close>

datatype 'r event =
    CallParseSelector string
  | CallReadBody
  | CallDecodeInto string
  | CallAdmit "'r attributes"
  | CallList
  | CallGet string
  | CallCreate "'r Object"
  | CallUpdate "'r Object"
  | CallDelete string
  | CallSetSelfLink
  | CallNewOperation
  | CallWaitFor nat
  | CallOnReceive
  | LogError error

text \<open>What is written to the response: \<^verbatim>\<open>notFound\<close>, \<^verbatim>\<open>errorJSON\<close> or \<^verbatim>\<open>writeJSON\<close>.\<close>

datatype 'r response = NotFound | ErrorJSON error | WriteJSON int "'r Object"

text \<open>
  The handler returns the status code it wrote, unless a panic unwinds it before
  anything is written.
\<close>

datatype 'r outcome = Returns int "'r response" | Panicked

type_synonym 'r run = "'r outcome \<times> 'r event list"

text \<open>\<open>after evs run\<close>: the calls \<open>evs\<close> were made, then \<open>run\<close> went on.\<close>

definition after :: "'r event list \<Rightarrow> 'r run \<Rightarrow> 'r run" where
  "after evs run = (fst run, evs @ snd run)"

definition errorJSON :: "'r deps \<Rightarrow> error \<Rightarrow> 'r outcome" where
  "errorJSON D err = Returns (errorCode D err) (ErrorJSON err)"

definition notFound :: "'r outcome" where
  "notFound = Returns 404 NotFound"

section \<open>Operations\<close>

text \<open>
  The hook of an operation: the result as the hook left it and what it logged, or
  \<open>None\<close> when it panics.
\<close>

type_synonym 'r hook = "'r RESTResult \<Rightarrow> ('r RESTResult \<times> 'r event list) option"

text \<open>
  \<^verbatim>\<open>curry\<close> (\<open>curry_hook\<close> here) adapts a self-link function to a hook: the error of
  the function is logged and goes no further.
\<close>

definition curry_hook ::
  "('r Object \<Rightarrow> request \<Rightarrow> 'r Object ret) \<Rightarrow> request \<Rightarrow> 'r hook" where
  "curry_hook f req = (\<lambda>obj.
     case f (Object obj) req of
       Ok obj' \<Rightarrow> Some (obj\<lparr>Object := obj'\<rparr>, [])
     | Err err obj' \<Rightarrow> Some (obj\<lparr>Object := obj'\<rparr>, [LogError err])
     | Panic \<Rightarrow> None)"

text \<open>
  Modelled from the spec: the operation registry (\<^verbatim>\<open>Operations\<close>, \<^verbatim>\<open>Operation\<close> and
  their methods \<^verbatim>\<open>NewOperation\<close>, \<^verbatim>\<open>WaitFor\<close>, \<^verbatim>\<open>StatusOrResult\<close>) is code of this package
  that is missing from the sources at hand. The spec gives its contract:
  \<^verbatim>\<open>create(resultSource, onComplete?)\<close> returns a handle; \<^verbatim>\<open>waitUpTo(duration)\<close> blocks and
  returns on completion or expiry; \<^verbatim>\<open>statusOrResult()\<close> returns the result and whether the
  operation is complete; before completion the handle exposes a placeholder, an operation
  reference; the callback is invoked by the registry on the result.

  An operation is the channel it awaits, its hook, and the result once it has finished.
\<close>

record 'r Operation =
  ID :: nat
  awaiting :: "'r chan"
  onReceive :: "'r hook option"
  finished :: "'r RESTResult option"

text \<open>
  Modelled from the spec: \<^verbatim>\<open>NewOperation\<close>, missing from the sources at hand, creates the
  handle of a result source and an optional callback; the handle has not finished.
\<close>

definition NewOperation :: "nat \<Rightarrow> 'r chan \<Rightarrow> 'r hook option \<Rightarrow> 'r Operation" where
  "NewOperation lastID from hook =
     \<lparr>ID = Suc lastID, awaiting = from, onReceive = hook, finished = None\<rparr>"

text \<open>
  Modelled from the spec: \<^verbatim>\<open>WaitFor\<close>, missing from the sources at hand, waits up to the
  bound and returns at once when the result source delivers. A result that arrives within
  the bound finishes the operation, after the callback has been invoked on it; a callback
  that panics leaves the operation unfinished. A result that arrives later is not seen by
  the request.
\<close>

definition WaitFor :: "nat \<Rightarrow> 'r Operation \<Rightarrow> 'r Operation \<times> 'r event list" where
  "WaitFor timeout op =
     (case awaiting op of
        Silent \<Rightarrow> (op, [])
      | Delivers d result \<Rightarrow>
          if d \<le> timeout then
            (case onReceive op of
               None \<Rightarrow> (op\<lparr>finished := Some result\<rparr>, [])
             | Some hook \<Rightarrow>
                 (case hook result of
                    None \<Rightarrow> (op, [CallOnReceive])
                  | Some (result', logged) \<Rightarrow>
                      (op\<lparr>finished := Some result'\<rparr>, CallOnReceive # logged)))
          else (op, []))"

text \<open>
  Modelled from the spec: \<^verbatim>\<open>StatusOrResult\<close>, missing from the sources at hand, returns
  the result of a finished operation and \<open>True\<close>, and otherwise the placeholder, a status
  object that refers to the operation, and \<open>False\<close>.
\<close>

definition StatusOrResult :: "'r Operation \<Rightarrow> 'r RESTResult \<times> bool" where
  "StatusOrResult op =
     (case finished op of
        None \<Rightarrow>
          (\<lparr>Object = StatusObject \<lparr>Status = ''working'', Code = 0, Reason = ''working'',
                                    Details_ID = ID op, Details_Kind = ''operation''\<rparr>,
            Created = False\<rparr>, False)
      | Some result \<Rightarrow> (result, True))"

text \<open>\<^verbatim>\<open>createOperation\<close>: a new operation on the channel, waited for up to the timeout.\<close>

definition createOperation ::
  "'r RESTHandler \<Rightarrow> 'r chan \<Rightarrow> nat \<Rightarrow> 'r hook option \<Rightarrow> 'r Operation \<times> 'r event list" where
  "createOperation h out timeout hook =
     (let op = NewOperation (ops h) out hook;
          (op', evs) = WaitFor timeout op
      in (op', CallNewOperation # CallWaitFor timeout # evs))"

text \<open>
  \<^verbatim>\<open>finishReq\<close>: 200 for a complete operation, 201 when the result is flagged as
  created, the code of a status object when it is not 0, and 202 for an operation that
  is not complete.
\<close>

definition finishReq :: "'r RESTHandler \<Rightarrow> 'r Operation \<Rightarrow> request \<Rightarrow> 'r outcome" where
  "finishReq h op req =
     (let (result, complete) = StatusOrResult op;
          obj = Object result;
          status =
            (if complete then
               (let status = (if Created result then 201 else 200)
                in case obj of
                     StatusObject stat \<Rightarrow> if Code stat \<noteq> 0 then Code stat else status
                   | Resource _ \<Rightarrow> status)
             else 202)
      in Returns status (WriteJSON status obj))"

section \<open>The dispatcher\<close>

text \<open>
  \<^verbatim>\<open>handleRESTStorage\<close>: the switch on the method and the number of path parts, and
  for each action its calls in the order of the source.
\<close>

definition handleRESTStorage ::
  "'r deps \<Rightarrow> 'r RESTHandler \<Rightarrow> string list \<Rightarrow> request \<Rightarrow> 'r RESTStorage \<Rightarrow>
   string \<Rightarrow> string \<Rightarrow> 'r run" where
  "handleRESTStorage D h parts req storage namespace kind =
     (let ctx = namespace;
          timeout = parseTimeout D (Get (RawQuery (URL req)) ''timeout'')
      in
      if Method req = ''GET'' then
        (if length parts = 1 then
           after [CallParseSelector (Get (RawQuery (URL req)) ''labels'')]
           (case ParseSelector D (Get (RawQuery (URL req)) ''labels'') of
              Inl err \<Rightarrow> (errorJSON D err, [])
            | Inr label \<Rightarrow>
           after [CallParseSelector (Get (RawQuery (URL req)) ''fields'')]
           (case ParseSelector D (Get (RawQuery (URL req)) ''fields'') of
              Inl err \<Rightarrow> (errorJSON D err, [])
            | Inr field \<Rightarrow>
           (case Lister storage of
              None \<Rightarrow> (errorJSON D (MethodNotSupported kind ''list''), [])
            | Some lister \<Rightarrow>
           after [CallList]
           (case lister ctx label field of
              Inl err \<Rightarrow> (errorJSON D err, [])
            | Inr list \<Rightarrow>
           after [CallSetSelfLink]
           (case setSelfLink D h list req of
              Err err _ \<Rightarrow> (errorJSON D err, [])
            | Panic \<Rightarrow> (Panicked, [])
            | Ok list' \<Rightarrow> (Returns 200 (WriteJSON 200 list'), []))))))
         else if length parts = 2 then
           (case Getter storage of
              None \<Rightarrow> (errorJSON D (MethodNotSupported kind ''get''), [])
            | Some getter \<Rightarrow>
           after [CallGet (parts ! 1)]
           (case getter ctx (parts ! 1) of
              Inl err \<Rightarrow> (errorJSON D err, [])
            | Inr item \<Rightarrow>
           after [CallSetSelfLink]
           (case setSelfLink D h item req of
              Err err _ \<Rightarrow> (errorJSON D err, [])
            | Panic \<Rightarrow> (Panicked, [])
            | Ok item' \<Rightarrow> (Returns 200 (WriteJSON 200 item'), []))))
         else (notFound, []))
      else if Method req = ''POST'' then
        (if length parts \<noteq> 1 then (notFound, [])
         else
           (case Creater storage of
              None \<Rightarrow> (errorJSON D (MethodNotSupported kind ''create''), [])
            | Some creater \<Rightarrow>
           after [CallReadBody]
           (case Body req of
              Inl err \<Rightarrow> (errorJSON D err, [])
            | Inr body \<Rightarrow>
           after [CallDecodeInto body]
           (case codec h body (New storage) of
              Inl err \<Rightarrow> (errorJSON D err, [])
            | Inr obj \<Rightarrow>
           after [CallAdmit \<lparr>GetObject = Some obj, GetNamespace = namespace,
                              GetKind = parts ! 0, GetOperation = ''CREATE''\<rparr>]
           (case admissionControl h \<lparr>GetObject = Some obj, GetNamespace = namespace,
                                      GetKind = parts ! 0, GetOperation = ''CREATE''\<rparr> of
              Some err \<Rightarrow> (errorJSON D err, [])
            | None \<Rightarrow>
           after [CallCreate obj]
           (case creater ctx obj of
              Inl err \<Rightarrow> (errorJSON D err, [])
            | Inr out \<Rightarrow>
                (let (op, evs) =
                       createOperation h out timeout (Some (curry_hook (setSelfLinkAddName h) req))
                 in (finishReq h op req, evs))))))))
      else if Method req = ''DELETE'' then
        (if length parts \<noteq> 2 then (notFound, [])
         else
           (case Deleter storage of
              None \<Rightarrow> (errorJSON D (MethodNotSupported kind ''delete''), [])
            | Some deleter \<Rightarrow>
           after [CallAdmit \<lparr>GetObject = None, GetNamespace = namespace,
                              GetKind = parts ! 0, GetOperation = ''DELETE''\<rparr>]
           (case admissionControl h \<lparr>GetObject = None, GetNamespace = namespace,
                                      GetKind = parts ! 0, GetOperation = ''DELETE''\<rparr> of
              Some err \<Rightarrow> (errorJSON D err, [])
            | None \<Rightarrow>
           after [CallDelete (parts ! 1)]
           (case deleter ctx (parts ! 1) of
              Inl err \<Rightarrow> (errorJSON D err, [])
            | Inr out \<Rightarrow>
                (let (op, evs) = createOperation h out timeout None
                 in (finishReq h op req, evs))))))
      else if Method req = ''PUT'' then
        (if length parts \<noteq> 2 then (notFound, [])
         else
           (case Updater storage of
              None \<Rightarrow> (errorJSON D (MethodNotSupported kind ''create''), [])
            | Some updater \<Rightarrow>
           after [CallReadBody]
           (case Body req of
              Inl err \<Rightarrow> (errorJSON D err, [])
            | Inr body \<Rightarrow>
           after [CallDecodeInto body]
           (case codec h body (New storage) of
              Inl err \<Rightarrow> (errorJSON D err, [])
            | Inr obj \<Rightarrow>
           after [CallAdmit \<lparr>GetObject = Some obj, GetNamespace = namespace,
                              GetKind = parts ! 0, GetOperation = ''UPDATE''\<rparr>]
           (case admissionControl h \<lparr>GetObject = Some obj, GetNamespace = namespace,
                                      GetKind = parts ! 0, GetOperation = ''UPDATE''\<rparr> of
              Some err \<Rightarrow> (errorJSON D err, [])
            | None \<Rightarrow>
           after [CallUpdate obj]
           (case updater ctx obj of
              Inl err \<Rightarrow> (errorJSON D err, [])
            | Inr out \<Rightarrow>
                (let (op, evs) =
                       createOperation h out timeout (Some (curry_hook (setSelfLink D h) req))
                 in (finishReq h op req, evs))))))))
      else (notFound, []))"

section \<open>The routing table\<close>

text \<open>
  The table in the comment of \<^verbatim>\<open>handleRESTStorage\<close>: the method and the number of path
  parts select the action; every other pair is answered with 404.
\<close>

datatype action = ActList | ActGet | ActCreate | ActUpdate | ActDelete

definition route :: "string \<Rightarrow> nat \<Rightarrow> action option" where
  "route method n =
     (if method = ''GET'' \<and> n = 1 then Some ActList
      else if method = ''GET'' \<and> n = 2 then Some ActGet
      else if method = ''POST'' \<and> n = 1 then Some ActCreate
      else if method = ''PUT'' \<and> n = 2 then Some ActUpdate
      else if method = ''DELETE'' \<and> n = 2 then Some ActDelete
      else None)"

definition action_name :: "action \<Rightarrow> string" where
  "action_name a =
     (case a of ActList \<Rightarrow> ''list'' | ActGet \<Rightarrow> ''get'' | ActCreate \<Rightarrow> ''create''
      | ActUpdate \<Rightarrow> ''update'' | ActDelete \<Rightarrow> ''delete'')"

text \<open>The capability an action requires of the storage.\<close>

definition capable :: "'r RESTStorage \<Rightarrow> action \<Rightarrow> bool" where
  "capable storage a =
     (case a of
        ActList \<Rightarrow> Lister storage \<noteq> None
      | ActGet \<Rightarrow> Getter storage \<noteq> None
      | ActCreate \<Rightarrow> Creater storage \<noteq> None
      | ActUpdate \<Rightarrow> Updater storage \<noteq> None
      | ActDelete \<Rightarrow> Deleter storage \<noteq> None)"

definition mutating :: "action \<Rightarrow> bool" where
  "mutating a = (a = ActCreate \<or> a = ActUpdate \<or> a = ActDelete)"

text \<open>The calls of a run, by kind.\<close>

fun is_backend_call :: "'r event \<Rightarrow> bool" where
  "is_backend_call CallList = True"
| "is_backend_call (CallGet _) = True"
| "is_backend_call (CallCreate _) = True"
| "is_backend_call (CallUpdate _) = True"
| "is_backend_call (CallDelete _) = True"
| "is_backend_call _ = False"

fun is_admit :: "'r event \<Rightarrow> bool" where
  "is_admit (CallAdmit _) = True"
| "is_admit _ = False"

text \<open>
  The body of a Create or Update as the codec decodes it into the storage's new object;
  \<open>None\<close> when the body cannot be read or decoded.
\<close>

definition decoded :: "'r RESTHandler \<Rightarrow> request \<Rightarrow> 'r RESTStorage \<Rightarrow> 'r Object option" where
  "decoded h req storage =
     (case Body req of
        Inl _ \<Rightarrow> None
      | Inr body \<Rightarrow> (case codec h body (New storage) of Inl _ \<Rightarrow> None | Inr obj \<Rightarrow> Some obj))"

text \<open>
  A request reaches the admission controller when it is routed to a mutating action that
  the storage is capable of and, for Create and Update, its body decodes.
\<close>

definition reaches_gate ::
  "'r RESTHandler \<Rightarrow> string list \<Rightarrow> request \<Rightarrow> 'r RESTStorage \<Rightarrow> bool" where
  "reaches_gate h parts req storage =
     (case route (Method req) (length parts) of
        None \<Rightarrow> False
      | Some a \<Rightarrow>
          mutating a \<and> capable storage a \<and>
          (a = ActDelete \<or> decoded h req storage \<noteq> None))"

text \<open>
  The completion path that Create, Update and Delete share: the channel of the backend
  goes into an operation with the timeout and the hook, and \<^verbatim>\<open>finishReq\<close> answers.
\<close>

definition completion ::
  "'r RESTHandler \<Rightarrow> request \<Rightarrow> 'r chan \<Rightarrow> nat \<Rightarrow> 'r hook option \<Rightarrow> 'r run" where
  "completion h req out timeout hook =
     (finishReq h (fst (createOperation h out timeout hook)) req,
      snd (createOperation h out timeout hook))"

text \<open>The status of a complete operation, as the spec's table gives it.\<close>

definition embedded_code :: "'r Object \<Rightarrow> int" where
  "embedded_code obj = (case obj of StatusObject stat \<Rightarrow> Code stat | Resource _ \<Rightarrow> 0)"

definition completion_status :: "'r RESTResult \<Rightarrow> bool \<Rightarrow> int" where
  "completion_status result complete =
     (if \<not> complete then 202
      else if embedded_code (Object result) \<noteq> 0 then embedded_code (Object result)
      else if Created result then 201
      else 200)"

text \<open>
  The completion orchestrator in the words of the spec (4.3, with the contract of the
  registry): a handle is created on the result source with the callback of the action, and
  is told to wait up to the timeout. A result source that does not deliver within the
  timeout is answered with "accepted" (202) and the placeholder of the handle, and the
  callback is not invoked for the request. A result that is delivered within the timeout
  goes through the callback, if there is one, and is answered with the status of the table
  above; what the callback logs is logged, and a callback that panics leaves the operation
  incomplete.
\<close>

definition placeholder :: "'r RESTHandler \<Rightarrow> 'r Object" where
  "placeholder h =
     StatusObject \<lparr>Status = ''working'', Code = 0, Reason = ''working'',
                   Details_ID = Suc (ops h), Details_Kind = ''operation''\<rparr>"

definition accepted :: "'r RESTHandler \<Rightarrow> 'r outcome" where
  "accepted h = Returns 202 (WriteJSON 202 (placeholder h))"

definition completed :: "'r RESTResult \<Rightarrow> 'r outcome" where
  "completed result =
     Returns (completion_status result True)
       (WriteJSON (completion_status result True) (Object result))"

definition spec_completion ::
  "'r RESTHandler \<Rightarrow> 'r chan \<Rightarrow> nat \<Rightarrow> 'r hook option \<Rightarrow> 'r run" where
  "spec_completion h out timeout hook =
     (case out of
        Silent \<Rightarrow> (accepted h, [CallNewOperation, CallWaitFor timeout])
      | Delivers d result \<Rightarrow>
          if timeout < d then (accepted h, [CallNewOperation, CallWaitFor timeout])
          else
            (case hook of
               None \<Rightarrow> (completed result, [CallNewOperation, CallWaitFor timeout])
             | Some callback \<Rightarrow>
                 (case callback result of
                    None \<Rightarrow>
                      (accepted h, [CallNewOperation, CallWaitFor timeout, CallOnReceive])
                  | Some (result', logged) \<Rightarrow>
                      (completed result',
                       [CallNewOperation, CallWaitFor timeout, CallOnReceive] @ logged))))"

section \<open>A sample server\<close>

text \<open>
  A backend whose resources carry a name, a namespace, a self-link and, when they are
  lists, their items; \<open>Opaque\<close> is a resource without metadata, on which every accessor
  fails. The objects extracted from a list point into it. A selector parses when it is
  empty or has an \<^verbatim>\<open>=\<close> in it, and the timeout is 5 for \<^verbatim>\<open>5s\<close> and 30 otherwise. The theorems
  below are run on this server.
\<close>

datatype sample =
    Meta (sName: string) (sNamespace: string) (sLink: "url option") (sItems: "sample list option")
  | Opaque

fun the_sample :: "sample Object \<Rightarrow> sample" where
  "the_sample (Resource s) = s"
| "the_sample (StatusObject _) = Opaque"

definition sampleLinker :: "sample SelfLinker" where
  "sampleLinker =
     \<lparr>Name = (\<lambda>obj. case obj of
                 Resource (Meta n _ _ _) \<Rightarrow> Inr n
               | _ \<Rightarrow> Inl (Failure ''no name'')),
      Namespace = (\<lambda>obj. case obj of
                 Resource (Meta _ ns _ _) \<Rightarrow> Inr ns
               | _ \<Rightarrow> Inl (Failure ''no namespace'')),
      SetSelfLink = (\<lambda>obj u. case obj of
                 Resource (Meta n ns _ its) \<Rightarrow> Inr (Resource (Meta n ns (Some u) its))
               | _ \<Rightarrow> Inl (Failure ''no self link''))\<rparr>"

definition sampleDeps :: "sample deps" where
  "sampleDeps =
     \<lparr>parseTimeout = (\<lambda>s. if s = ''5s'' then 5 else 30),
      ParseSelector = (\<lambda>s. if s = [] \<or> CHR ''='' \<in> set s then Inr s
                            else Inl (Failure ''bad selector'')),
      IsListType = (\<lambda>obj. case obj of Resource (Meta _ _ _ (Some _)) \<Rightarrow> True | _ \<Rightarrow> False),
      ExtractList = (\<lambda>obj. case obj of
                 Resource (Meta _ _ _ (Some its)) \<Rightarrow> Inr (map Resource its)
               | _ \<Rightarrow> Inl (Failure ''not a list'')),
      SetList = (\<lambda>obj items. case obj of
                 Resource (Meta n ns l (Some _)) \<Rightarrow>
                   Inr (Resource (Meta n ns l (Some (map the_sample items))))
               | _ \<Rightarrow> Inl (Failure ''not a list'')),
      inPlace = (\<lambda>obj items. case obj of
                 Resource (Meta n ns l (Some _)) \<Rightarrow>
                   Resource (Meta n ns l (Some (map the_sample items)))
               | _ \<Rightarrow> obj),
      errorCode = (\<lambda>err. case err of MethodNotSupported _ _ \<Rightarrow> 405 | Failure _ \<Rightarrow> 500)\<rparr>"

definition sampleHandler :: "sample RESTHandler" where
  "sampleHandler =
     \<lparr>codec = (\<lambda>body obj. if body = [] then Inl (Failure ''empty body'')
                          else Inr (Resource (Meta body ''ns1'' None None))),
      canonicalPrefix = ''/api/v1beta1'',
      selfLinker = sampleLinker,
      ops = 0,
      admissionControl = (\<lambda>a. if GetNamespace a = ''closed'' then Some (Failure ''denied'')
                              else None)\<rparr>"

text \<open>
  A storage with every capability. Its list has two items, and a resource without
  metadata under the label \<^verbatim>\<open>state=broken\<close>; the object named \<^verbatim>\<open>lost\<close> has no metadata
  either. Its mutations answer at once, but for the update of \<^verbatim>\<open>slow\<close>, which answers
  after 10 units of time. The creation of \<^verbatim>\<open>ghost\<close> answers with a resource without metadata and
  the creation of \<^verbatim>\<open>batch\<close> with a list of two items; the update of \<^verbatim>\<open>all\<close> answers with a
  list whose first item has no metadata, and the update of \<^verbatim>\<open>some\<close> with a list whose
  second item has none. \<open>bareStorage\<close> has no capability.
\<close>

definition sampleStorage :: "sample RESTStorage" where
  "sampleStorage =
     \<lparr>New = Resource Opaque,
      Lister = Some (\<lambda>ctx label field.
                 if label = ''state=broken'' then Inr (Resource Opaque)
                 else Inr (Resource (Meta [] ctx None
                        (Some [Meta ''a'' ctx None None, Meta ''b'' ctx None None])))),
      Getter = Some (\<lambda>ctx name. if name = ''lost'' then Inr (Resource Opaque)
                                 else Inr (Resource (Meta name ctx None None))),
      Creater = Some (\<lambda>ctx obj.
                 if obj = Resource (Meta ''ghost'' ''ns1'' None None)
                 then Inr (Delivers 0 \<lparr>Object = Resource Opaque, Created = True\<rparr>)
                 else if obj = Resource (Meta ''batch'' ''ns1'' None None)
                 then Inr (Delivers 0
                        \<lparr>Object = Resource (Meta ''batch'' ''ns1'' None
                                     (Some [Meta ''a'' ''ns1'' None None,
                                            Meta ''b'' ''ns1'' None None])),
                          Created = True\<rparr>)
                 else Inr (Delivers 0 \<lparr>Object = obj, Created = True\<rparr>)),
      Updater = Some (\<lambda>ctx obj.
                 if obj = Resource (Meta ''all'' ''ns1'' None None)
                 then Inr (Delivers 0
                        \<lparr>Object = Resource (Meta ''all'' ''ns1'' None
                                     (Some [Opaque, Meta ''a'' ''ns1'' None None])),
                          Created = False\<rparr>)
                 else if obj = Resource (Meta ''some'' ''ns1'' None None)
                 then Inr (Delivers 0
                        \<lparr>Object = Resource (Meta ''some'' ''ns1'' None
                                     (Some [Meta ''a'' ''ns1'' None None, Opaque,
                                            Meta ''b'' ''ns1'' None None])),
                          Created = False\<rparr>)
                 else if obj = Resource (Meta ''slow'' ''ns1'' None None)
                 then Inr (Delivers 10 \<lparr>Object = obj, Created = False\<rparr>)
                 else Inr (Delivers 0 \<lparr>Object = obj, Created = False\<rparr>)),
      Deleter = Some (\<lambda>ctx name.
                 Inr (Delivers 0
                        \<lparr>Object = StatusObject \<lparr>Status = ''success'', Code = 0, Reason = [],
                                                 Details_ID = 0, Details_Kind = []\<rparr>,
                          Created = False\<rparr>))\<rparr>"

definition bareStorage :: "sample RESTStorage" where
  "bareStorage =
     \<lparr>New = Resource Opaque, Lister = None, Getter = None, Creater = None,
      Updater = None, Deleter = None\<rparr>"

text \<open>A list of two items, one of them without a namespace, and the list as linked.\<close>

definition sampleList :: "sample Object" where
  "sampleList =
     Resource (Meta [] [] None (Some [Meta ''a'' ''ns1'' None None, Meta ''b'' [] None None]))"

definition sampleListLinked :: "sample Object" where
  "sampleListLinked =
     Resource (Meta [] []
       (Some \<lparr>Host = [], Path = ''/api/v1beta1/foo'', RawQuery = [], Fragment = []\<rparr>)
       (Some [Meta ''a'' ''ns1''
                (Some \<lparr>Host = [], Path = ''/api/v1beta1/foo/a'',
                        RawQuery = [(''namespace'', ''ns1'')], Fragment = []\<rparr>) None,
              Meta ''b'' []
                (Some \<lparr>Host = [], Path = ''/api/v1beta1/foo/b'',
                        RawQuery = [], Fragment = []\<rparr>) None]))"

definition sampleRequest :: "string \<Rightarrow> string \<Rightarrow> (string \<times> string) list \<Rightarrow> string \<Rightarrow> request" where
  "sampleRequest method path query body =
     \<lparr>Method = method,
      URL = \<lparr>Host = [], Path = path, RawQuery = query, Fragment = []\<rparr>,
      Body = Inr body\<rparr>"

section \<open>Facts about the parts\<close>

lemma fst_after [simp]: "fst (after evs run) = fst run"
  by (simp add: after_def)

lemma snd_after [simp]: "snd (after evs run) = evs @ snd run"
  by (simp add: after_def)

lemma after_pair [simp]: "after evs (out, tr) = (out, evs @ tr)"
  by (simp add: after_def)

text \<open>
  Paths of the sample server.
\<close>

lemma splitPath_empty: "splitPath [] = []"
  by (simp add: splitPath_def trim_slashes_def)

lemma splitPath_foo: "splitPath ''/foo'' = [''foo'']"
  by (simp add: splitPath_def trim_slashes_def)

lemma splitPath_foo_bar: "splitPath ''/foo/bar'' = [''foo'', ''bar'']"
  by (simp add: splitPath_def trim_slashes_def)

lemma splitPath_ns_foo_bar: "splitPath ''/ns/ns1/foo/bar'' = [''ns'', ''ns1'', ''foo'', ''bar'']"
  by (simp add: splitPath_def trim_slashes_def)

lemma path_Join_foo: "path_Join [''/api/v1beta1'', ''/foo''] = ''/api/v1beta1/foo''"
  by (simp add: path_Join_def path_Clean_def clean_step_def)

lemma path_Join_foo_a: "path_Join [''/api/v1beta1'', ''/foo'', ''a''] = ''/api/v1beta1/foo/a''"
  by (simp add: path_Join_def path_Clean_def clean_step_def)

lemma path_Join_foo_b: "path_Join [''/api/v1beta1'', ''/foo'', ''b''] = ''/api/v1beta1/foo/b''"
  by (simp add: path_Join_def path_Clean_def clean_step_def)

lemma path_Join_foo_bar: "path_Join [''/api/v1beta1'', ''/foo/bar''] = ''/api/v1beta1/foo/bar''"
  by (simp add: path_Join_def path_Clean_def clean_step_def)

lemma path_Join_ns_foo_bar:
  "path_Join [''/api/v1beta1'', ''/ns/ns1/foo/bar''] = ''/api/v1beta1/ns/ns1/foo/bar''"
  by (simp add: path_Join_def path_Clean_def clean_step_def)

text \<open>
  When the self-link functions panic.
\<close>

lemma setSelfLinkAddName_Panic:
  "setSelfLinkAddName h obj req = Panic \<longleftrightarrow>
     (\<exists>name namespace. Name (selfLinker h) obj = Inr name
        \<and> Namespace (selfLinker h) obj = Inr namespace \<and> namespace \<noteq> []
        \<and> splitPath (Path (URL req)) = [])"
  by (auto simp add: setSelfLinkAddName_def Let_def split: sum.splits list.splits if_splits)

lemma setSelfLinkItems_Panic:
  "setSelfLinkItems h items req = Panic \<Longrightarrow> splitPath (Path (URL req)) = []"
  by (induction items) (auto simp add: setSelfLinkAddName_Panic split: ret.splits)

lemma setSelfLinkList_Panic:
  "setSelfLinkList D h obj req = Panic \<Longrightarrow> splitPath (Path (URL req)) = []"
  by (auto simp add: setSelfLinkList_def setSelfLinkItems_Panic
      split: if_splits sum.splits ret.splits)

lemma setSelfLink_Panic:
  "setSelfLink D h obj req = Panic \<Longrightarrow> splitPath (Path (URL req)) = []"
  by (auto simp add: setSelfLink_def Let_def setSelfLinkList_Panic
      split: if_splits sum.splits list.splits)

text \<open>
  The object after a self-link function has returned an error.
\<close>

lemma setSelfLinkAddName_Err:
  "setSelfLinkAddName h obj req = Err err obj' \<Longrightarrow> obj' = obj"
  by (auto simp add: setSelfLinkAddName_def Let_def
      split: sum.splits list.splits if_splits option.splits)

text \<open>
  The loop over the items links them one by one.
\<close>

lemma setSelfLinkItems_Ok:
  "setSelfLinkItems h items req = Ok items' \<Longrightarrow>
     list_all2 (\<lambda>item item'. setSelfLinkAddName h item req = Ok item') items items'"
  by (induction items arbitrary: items') (auto split: ret.splits)

lemma setSelfLinkItems_Ok_nth:
  assumes "setSelfLinkItems h items req = Ok items'"
  shows "length items' = length items"
    and "i < length items \<Longrightarrow> setSelfLinkAddName h (items ! i) req = Ok (items' ! i)"
  using setSelfLinkItems_Ok [OF assms] by (auto simp add: list_all2_conv_all_nth)

text \<open>
  The link that the self-link functions set.
\<close>

lemma setSelfLink_link_url:
  "setSelfLink D h obj req =
     (case Namespace (selfLinker h) obj of
        Inl err \<Rightarrow> Err err obj
      | Inr namespace \<Rightarrow>
          (case link_url h req [] namespace of
             None \<Rightarrow> Panic
           | Some u \<Rightarrow>
               (case SetSelfLink (selfLinker h) obj u of
                  Inl err \<Rightarrow> Err err obj
                | Inr obj' \<Rightarrow> setSelfLinkList D h obj' req)))"
  by (cases "URL req")
    (simp add: setSelfLink_def link_url_def Let_def split: sum.splits list.splits)

lemma setSelfLinkAddName_link_url:
  "setSelfLinkAddName h obj req =
     (case Name (selfLinker h) obj of
        Inl err \<Rightarrow> Err err obj
      | Inr name \<Rightarrow>
     (case Namespace (selfLinker h) obj of
        Inl err \<Rightarrow> Err err obj
      | Inr namespace \<Rightarrow>
          (case link_url h req [name] namespace of
             None \<Rightarrow> Panic
           | Some u \<Rightarrow>
               (case SetSelfLink (selfLinker h) obj u of
                  Inl err \<Rightarrow> Err err obj
                | Inr obj' \<Rightarrow> Ok obj'))))"
  by (cases "URL req")
    (simp add: setSelfLinkAddName_def link_url_def Let_def split: sum.splits list.splits)

text \<open>
  The items after the loop has stopped at one of them: those before it are linked, the
  one that failed and those after it are as they were.
\<close>

lemma setSelfLinkItems_Err:
  "setSelfLinkItems h items req = Err err state \<Longrightarrow>
     \<exists>before before' item rest.
        items = before @ item # rest
      \<and> list_all2 (\<lambda>member member'. setSelfLinkAddName h member req = Ok member') before before'
      \<and> setSelfLinkAddName h item req = Err err item
      \<and> state = before' @ item # rest"
proof (induction items arbitrary: state)
  case Nil
  then show ?case
    by simp
next
  case (Cons a items)
  show ?case
  proof (cases "setSelfLinkAddName h a req")
    case (Ok a')
    with Cons.prems obtain state' where tl: "setSelfLinkItems h items req = Err err state'"
      and st: "state = a' # state'"
      by (auto split: ret.splits)
    from Cons.IH [OF tl] obtain before before' item rest
      where "items = before @ item # rest"
        and "list_all2 (\<lambda>member member'. setSelfLinkAddName h member req = Ok member')
               before before'"
        and "setSelfLinkAddName h item req = Err err item"
        and "state' = before' @ item # rest"
      by blast
    with Ok st show ?thesis
      by (intro exI [of _ "a # before"] exI [of _ "a' # before'"] exI [of _ item]
          exI [of _ rest]) simp
  next
    case (Err e a')
    with Cons.prems have "e = err" and "state = a' # items"
      by simp_all
    moreover from Err have "a' = a"
      by (rule setSelfLinkAddName_Err)
    ultimately show ?thesis
      using Err
      by (intro exI [of _ "[]"] exI [of _ a] exI [of _ items]) simp
  next
    case Panic
    with Cons.prems show ?thesis
      by simp
  qed
qed

lemma setSelfLinkList_Err_state:
  assumes "setSelfLinkList D h linked req = Err err obj'"
  shows "IsListType D linked
     \<and> (obj' = linked \<and> ExtractList D linked = Inl err
        \<or> (\<exists>before before' item rest.
              ExtractList D linked = Inr (before @ item # rest)
            \<and> list_all2 (\<lambda>member member'. setSelfLinkAddName h member req = Ok member')
                 before before'
            \<and> setSelfLinkAddName h item req = Err err item
            \<and> obj' = inPlace D linked (before' @ item # rest))
        \<or> (\<exists>items items'.
              ExtractList D linked = Inr items
            \<and> list_all2 (\<lambda>member member'. setSelfLinkAddName h member req = Ok member')
                 items items'
            \<and> SetList D (inPlace D linked items') items' = Inl err
            \<and> obj' = inPlace D linked items'))"
proof -
  from assms have isList: "IsListType D linked"
    by (auto simp add: setSelfLinkList_def split: if_splits)
  show ?thesis
  proof (cases "ExtractList D linked")
    case (Inl e)
    with assms isList show ?thesis
      by (simp add: setSelfLinkList_def)
  next
    case (Inr items)
    show ?thesis
    proof (cases "setSelfLinkItems h items req")
      case (Ok items')
      with assms isList Inr have "SetList D (inPlace D linked items') items' = Inl err"
        and "obj' = inPlace D linked items'"
        by (auto simp add: setSelfLinkList_def split: sum.splits)
      with isList Inr setSelfLinkItems_Ok [OF Ok] show ?thesis
        by blast
    next
      case (Err e state)
      with assms isList Inr have "e = err" and "obj' = inPlace D linked state"
        by (simp_all add: setSelfLinkList_def)
      with Err setSelfLinkItems_Err [of h items req err state] isList Inr show ?thesis
        by blast
    next
      case Panic
      with assms isList Inr show ?thesis
        by (simp add: setSelfLinkList_def)
    qed
  qed
qed

lemma setSelfLink_Err_state:
  assumes "setSelfLink D h obj req = Err err obj'"
  shows "obj' = obj
         \<and> (Namespace (selfLinker h) obj = Inl err
            \<or> (\<exists>namespace u. Namespace (selfLinker h) obj = Inr namespace
                  \<and> link_url h req [] namespace = Some u
                  \<and> SetSelfLink (selfLinker h) obj u = Inl err))
     \<or> (\<exists>namespace u linked.
           Namespace (selfLinker h) obj = Inr namespace
         \<and> link_url h req [] namespace = Some u
         \<and> SetSelfLink (selfLinker h) obj u = Inr linked
         \<and> IsListType D linked
         \<and> (obj' = linked \<and> ExtractList D linked = Inl err
            \<or> (\<exists>before before' item rest.
                  ExtractList D linked = Inr (before @ item # rest)
                \<and> list_all2 (\<lambda>member member'. setSelfLinkAddName h member req = Ok member')
                     before before'
                \<and> setSelfLinkAddName h item req = Err err item
                \<and> obj' = inPlace D linked (before' @ item # rest))
            \<or> (\<exists>items items'.
                  ExtractList D linked = Inr items
                \<and> list_all2 (\<lambda>member member'. setSelfLinkAddName h member req = Ok member')
                     items items'
                \<and> SetList D (inPlace D linked items') items' = Inl err
                \<and> obj' = inPlace D linked items')))"
proof (cases "Namespace (selfLinker h) obj")
  case (Inl e)
  with assms show ?thesis
    by (simp add: setSelfLink_link_url)
next
  case (Inr namespace)
  with assms obtain u where url: "link_url h req [] namespace = Some u"
    by (auto simp add: setSelfLink_link_url split: option.splits)
  show ?thesis
  proof (cases "SetSelfLink (selfLinker h) obj u")
    case (Inl e)
    with assms Inr url show ?thesis
      by (simp add: setSelfLink_link_url)
  next
    case own: (Inr linked)
    with assms Inr url have "setSelfLinkList D h linked req = Err err obj'"
      by (simp add: setSelfLink_link_url)
    from setSelfLinkList_Err_state [OF this] Inr url own show ?thesis
      by blast
  qed
qed

text \<open>
  The completion path: what it logs, and what it answers when the hook fails.
\<close>

lemma let_completion:
  "(case createOperation h out timeout hook of (op, evs) \<Rightarrow> (finishReq h op req, evs)) =
     completion h req out timeout hook"
  by (simp add: completion_def split: prod.splits)

lemma completion_events:
  assumes "hook = None \<or> hook = Some (curry_hook f req')"
  shows "\<exists>evs. snd (completion h req out timeout hook) = CallNewOperation # CallWaitFor timeout # evs
           \<and> filter is_admit evs = [] \<and> filter is_backend_call evs = []"
  using assms
  by (auto simp add: completion_def createOperation_def NewOperation_def WaitFor_def
      curry_hook_def Let_def split: chan.splits option.splits prod.splits ret.splits)

lemma completion_no_admit [simp]:
  "filter is_admit (snd (completion h req out timeout None)) = []"
  "filter is_admit (snd (completion h req out timeout (Some (curry_hook f req')))) = []"
  using completion_events [of None f req' h req out timeout]
    completion_events [of "Some (curry_hook f req')" f req' h req out timeout]
  by auto

lemma completion_no_backend_call [simp]:
  "filter is_backend_call (snd (completion h req out timeout None)) = []"
  "filter is_backend_call (snd (completion h req out timeout (Some (curry_hook f req')))) = []"
  using completion_events [of None f req' h req out timeout]
    completion_events [of "Some (curry_hook f req')" f req' h req out timeout]
  by auto

lemma completion_hook_failure:
  assumes "f (Object r) req = Err err obj'" and "d \<le> timeout"
  shows "completion h req (Delivers d r) timeout (Some (curry_hook f req)) =
           (Returns (completion_status (r\<lparr>Object := obj'\<rparr>) True)
              (WriteJSON (completion_status (r\<lparr>Object := obj'\<rparr>) True) obj'),
            [CallNewOperation, CallWaitFor timeout, CallOnReceive, LogError err])"
  using assms
  by (simp add: completion_def createOperation_def NewOperation_def WaitFor_def curry_hook_def
      finishReq_def StatusOrResult_def completion_status_def embedded_code_def Let_def
      split: Object.splits)

text \<open>
  The completion path of the source is the orchestrator of the spec.
\<close>

lemma completion_spec:
  "completion h req out timeout hook = spec_completion h out timeout hook"
  by (auto simp add: completion_def createOperation_def NewOperation_def WaitFor_def
      finishReq_def StatusOrResult_def spec_completion_def accepted_def completed_def
      placeholder_def completion_status_def embedded_code_def Let_def
      split: chan.splits option.splits prod.splits Object.splits)

text \<open>
  The dispatcher, action by action.
\<close>

lemma route_Some:
  "route method n = Some a \<longleftrightarrow>
     (a = ActList \<and> method = ''GET'' \<and> n = 1) \<or> (a = ActGet \<and> method = ''GET'' \<and> n = 2)
     \<or> (a = ActCreate \<and> method = ''POST'' \<and> n = 1) \<or> (a = ActUpdate \<and> method = ''PUT'' \<and> n = 2)
     \<or> (a = ActDelete \<and> method = ''DELETE'' \<and> n = 2)"
  by (auto simp add: route_def)

lemma unrouted:
  "route (Method req) (length parts) = None \<Longrightarrow>
   handleRESTStorage D h parts req storage namespace kind = (Returns 404 NotFound, [])"
  by (auto simp add: route_def handleRESTStorage_def notFound_def Let_def split: if_splits)

lemma handle_LIST:
  assumes "Method req = ''GET''" and "length parts = 1"
  shows "handleRESTStorage D h parts req storage namespace kind =
     (case ParseSelector D (Get (RawQuery (URL req)) ''labels'') of
        Inl err \<Rightarrow> (errorJSON D err, [CallParseSelector (Get (RawQuery (URL req)) ''labels'')])
      | Inr label \<Rightarrow>
     after [CallParseSelector (Get (RawQuery (URL req)) ''labels''),
            CallParseSelector (Get (RawQuery (URL req)) ''fields'')]
     (case ParseSelector D (Get (RawQuery (URL req)) ''fields'') of
        Inl err \<Rightarrow> (errorJSON D err, [])
      | Inr field \<Rightarrow>
     (case Lister storage of
        None \<Rightarrow> (errorJSON D (MethodNotSupported kind ''list''), [])
      | Some lister \<Rightarrow>
     (case lister namespace label field of
        Inl err \<Rightarrow> (errorJSON D err, [CallList])
      | Inr list \<Rightarrow>
     (case setSelfLink D h list req of
        Err err _ \<Rightarrow> (errorJSON D err, [CallList, CallSetSelfLink])
      | Panic \<Rightarrow> (Panicked, [CallList, CallSetSelfLink])
      | Ok list' \<Rightarrow> (Returns 200 (WriteJSON 200 list'), [CallList, CallSetSelfLink]))))))"
  using assms
  by (simp add: handleRESTStorage_def Let_def after_def
      split: option.splits sum.splits ret.splits)

lemma handle_GET:
  assumes "Method req = ''GET''" and "length parts = 2"
  shows "handleRESTStorage D h parts req storage namespace kind =
     (case Getter storage of
        None \<Rightarrow> (errorJSON D (MethodNotSupported kind ''get''), [])
      | Some getter \<Rightarrow>
     (case getter namespace (parts ! 1) of
        Inl err \<Rightarrow> (errorJSON D err, [CallGet (parts ! 1)])
      | Inr item \<Rightarrow>
     (case setSelfLink D h item req of
        Err err _ \<Rightarrow> (errorJSON D err, [CallGet (parts ! 1), CallSetSelfLink])
      | Panic \<Rightarrow> (Panicked, [CallGet (parts ! 1), CallSetSelfLink])
      | Ok item' \<Rightarrow> (Returns 200 (WriteJSON 200 item'), [CallGet (parts ! 1), CallSetSelfLink]))))"
  using assms
  by (simp add: handleRESTStorage_def Let_def after_def
      split: option.splits sum.splits ret.splits)

lemma handle_POST:
  assumes "Method req = ''POST''" and "length parts = 1"
  shows "handleRESTStorage D h parts req storage namespace kind =
     (case Creater storage of
        None \<Rightarrow> (errorJSON D (MethodNotSupported kind ''create''), [])
      | Some creater \<Rightarrow>
     (case Body req of
        Inl err \<Rightarrow> (errorJSON D err, [CallReadBody])
      | Inr body \<Rightarrow>
     (case codec h body (New storage) of
        Inl err \<Rightarrow> (errorJSON D err, [CallReadBody, CallDecodeInto body])
      | Inr obj \<Rightarrow>
     (case admissionControl h \<lparr>GetObject = Some obj, GetNamespace = namespace,
                                GetKind = parts ! 0, GetOperation = ''CREATE''\<rparr> of
        Some err \<Rightarrow> (errorJSON D err, [CallReadBody, CallDecodeInto body,
           CallAdmit \<lparr>GetObject = Some obj, GetNamespace = namespace,
                      GetKind = parts ! 0, GetOperation = ''CREATE''\<rparr>])
      | None \<Rightarrow>
     (case creater namespace obj of
        Inl err \<Rightarrow> (errorJSON D err, [CallReadBody, CallDecodeInto body,
           CallAdmit \<lparr>GetObject = Some obj, GetNamespace = namespace,
                      GetKind = parts ! 0, GetOperation = ''CREATE''\<rparr>, CallCreate obj])
      | Inr out \<Rightarrow>
          after [CallReadBody, CallDecodeInto body,
                 CallAdmit \<lparr>GetObject = Some obj, GetNamespace = namespace,
                            GetKind = parts ! 0, GetOperation = ''CREATE''\<rparr>, CallCreate obj]
            (completion h req out (parseTimeout D (Get (RawQuery (URL req)) ''timeout''))
               (Some (curry_hook (setSelfLinkAddName h) req))))))))"
  using assms
  by (simp add: handleRESTStorage_def let_completion Let_def after_def
      split: option.splits sum.splits)

lemma handle_PUT:
  assumes "Method req = ''PUT''" and "length parts = 2"
  shows "handleRESTStorage D h parts req storage namespace kind =
     (case Updater storage of
        None \<Rightarrow> (errorJSON D (MethodNotSupported kind ''create''), [])
      | Some updater \<Rightarrow>
     (case Body req of
        Inl err \<Rightarrow> (errorJSON D err, [CallReadBody])
      | Inr body \<Rightarrow>
     (case codec h body (New storage) of
        Inl err \<Rightarrow> (errorJSON D err, [CallReadBody, CallDecodeInto body])
      | Inr obj \<Rightarrow>
     (case admissionControl h \<lparr>GetObject = Some obj, GetNamespace = namespace,
                                GetKind = parts ! 0, GetOperation = ''UPDATE''\<rparr> of
        Some err \<Rightarrow> (errorJSON D err, [CallReadBody, CallDecodeInto body,
           CallAdmit \<lparr>GetObject = Some obj, GetNamespace = namespace,
                      GetKind = parts ! 0, GetOperation = ''UPDATE''\<rparr>])
      | None \<Rightarrow>
     (case updater namespace obj of
        Inl err \<Rightarrow> (errorJSON D err, [CallReadBody, CallDecodeInto body,
           CallAdmit \<lparr>GetObject = Some obj, GetNamespace = namespace,
                      GetKind = parts ! 0, GetOperation = ''UPDATE''\<rparr>, CallUpdate obj])
      | Inr out \<Rightarrow>
          after [CallReadBody, CallDecodeInto body,
                 CallAdmit \<lparr>GetObject = Some obj, GetNamespace = namespace,
                            GetKind = parts ! 0, GetOperation = ''UPDATE''\<rparr>, CallUpdate obj]
            (completion h req out (parseTimeout D (Get (RawQuery (URL req)) ''timeout''))
               (Some (curry_hook (setSelfLink D h) req))))))))"
  using assms
  by (simp add: handleRESTStorage_def let_completion Let_def after_def
      split: option.splits sum.splits)

lemma handle_DELETE:
  assumes "Method req = ''DELETE''" and "length parts = 2"
  shows "handleRESTStorage D h parts req storage namespace kind =
     (case Deleter storage of
        None \<Rightarrow> (errorJSON D (MethodNotSupported kind ''delete''), [])
      | Some deleter \<Rightarrow>
     (case admissionControl h \<lparr>GetObject = None, GetNamespace = namespace,
                                GetKind = parts ! 0, GetOperation = ''DELETE''\<rparr> of
        Some err \<Rightarrow> (errorJSON D err,
          [CallAdmit \<lparr>GetObject = None, GetNamespace = namespace,
                      GetKind = parts ! 0, GetOperation = ''DELETE''\<rparr>])
      | None \<Rightarrow>
     (case deleter namespace (parts ! 1) of
        Inl err \<Rightarrow> (errorJSON D err,
          [CallAdmit \<lparr>GetObject = None, GetNamespace = namespace,
                      GetKind = parts ! 0, GetOperation = ''DELETE''\<rparr>, CallDelete (parts ! 1)])
      | Inr out \<Rightarrow>
          after [CallAdmit \<lparr>GetObject = None, GetNamespace = namespace,
                            GetKind = parts ! 0, GetOperation = ''DELETE''\<rparr>,
                 CallDelete (parts ! 1)]
            (completion h req out (parseTimeout D (Get (RawQuery (URL req)) ''timeout''))
               None))))"
  using assms
  by (simp add: handleRESTStorage_def let_completion Let_def after_def
      split: option.splits sum.splits)

lemma handle_GET_no_admit:
  assumes "Method req = ''GET''"
  shows "filter is_admit (snd (handleRESTStorage D h parts req storage namespace kind)) = []"
  using assms
  by (simp add: handleRESTStorage_def Let_def notFound_def
      split: option.splits sum.splits ret.splits)

text \<open>
  The definitions that a run of the sample server unfolds.
\<close>

lemmas sample_defs = sampleRequest_def sampleDeps_def sampleHandler_def sampleLinker_def
  sampleStorage_def bareStorage_def

lemmas run_defs = completion_def createOperation_def NewOperation_def WaitFor_def
  curry_hook_def finishReq_def StatusOrResult_def setSelfLink_def setSelfLinkList_def
  setSelfLinkAddName_def errorJSON_def Get_def Let_def
  splitPath_def trim_slashes_def path_Join_def path_Clean_def clean_step_def

section \<open>Missing capabilities\<close>

text \<open>
  Claim C1, as amended. A request whose storage lacks the capability that the selected
  action requires is answered with the "method not supported" error that carries the
  resource kind, and no backend method is called. For a list this holds once both
  selectors have parsed, since they are parsed before the capability is looked for. The
  error carries the name of the action for list, get, create and delete; the name it
  carries for update is left open.
\<close>

theorem capability_check:
  assumes "route (Method req) (length parts) = Some a"
    and "\<not> capable storage a"
    and "a = ActList \<longrightarrow>
           (\<exists>label field. ParseSelector D (Get (RawQuery (URL req)) ''labels'') = Inr label
              \<and> ParseSelector D (Get (RawQuery (URL req)) ''fields'') = Inr field)"
  shows "\<exists>name. fst (handleRESTStorage D h parts req storage namespace kind) =
                   errorJSON D (MethodNotSupported kind name)
           \<and> (a \<noteq> ActUpdate \<longrightarrow> name = action_name a)
           \<and> filter is_backend_call
                (snd (handleRESTStorage D h parts req storage namespace kind)) = []"
proof (cases a)
  case ActList
  with assms show ?thesis
    by (auto simp add: route_Some handle_LIST capable_def action_name_def)
next
  case ActGet
  with assms show ?thesis
    by (auto simp add: route_Some handle_GET capable_def action_name_def)
next
  case ActCreate
  with assms show ?thesis
    by (auto simp add: route_Some handle_POST capable_def action_name_def)
next
  case ActUpdate
  with assms show ?thesis
    by (auto simp add: route_Some handle_PUT capable_def action_name_def)
next
  case ActDelete
  with assms show ?thesis
    by (auto simp add: route_Some handle_DELETE capable_def action_name_def)
qed

theorem capability_check_witness:
  "fst (handleRESTStorage sampleDeps sampleHandler [''foo'', ''bar'']
        (sampleRequest ''DELETE'' ''/foo/bar'' [] []) bareStorage ''ns1'' ''foo'') =
     Returns 405 (ErrorJSON (MethodNotSupported ''foo'' ''delete''))
   \<and> fst (handleRESTStorage sampleDeps sampleHandler [''foo'']
        (sampleRequest ''GET'' ''/foo'' [(''labels'', ''a=b'')] []) bareStorage ''ns1'' ''foo'') =
     Returns 405 (ErrorJSON (MethodNotSupported ''foo'' ''list''))"
  using capability_check [of "sampleRequest ''DELETE'' ''/foo/bar'' [] []" "[''foo'', ''bar'']"
      ActDelete bareStorage sampleDeps sampleHandler "''ns1''" "''foo''"]
    capability_check [of "sampleRequest ''GET'' ''/foo'' [(''labels'', ''a=b'')] []" "[''foo'']"
      ActList bareStorage sampleDeps sampleHandler "''ns1''" "''foo''"]
  by (simp add: route_def capable_def action_name_def sampleRequest_def sampleDeps_def
      bareStorage_def Get_def errorJSON_def)

text \<open>
  As stated, for every request whose storage lacks the capability, claim C1 fails: a list
  request with a malformed field selector, on a storage without the Lister capability, is
  answered with the error of the selector parser.
\<close>

theorem capability_check_counterexample:
  "route (Method (sampleRequest ''GET'' ''/foo'' [(''fields'', ''x!'')] [])) (length [''foo''])
     = Some ActList
   \<and> \<not> capable bareStorage ActList
   \<and> fst (handleRESTStorage sampleDeps sampleHandler [''foo'']
        (sampleRequest ''GET'' ''/foo'' [(''fields'', ''x!'')] []) bareStorage ''ns1'' ''foo'') =
       Returns 500 (ErrorJSON (Failure ''bad selector''))
   \<and> fst (handleRESTStorage sampleDeps sampleHandler [''foo'']
        (sampleRequest ''GET'' ''/foo'' [(''fields'', ''x!'')] []) bareStorage ''ns1'' ''foo'') \<noteq>
       errorJSON sampleDeps (MethodNotSupported ''foo'' ''list'')"
  by (simp add: handle_LIST route_def capable_def sampleRequest_def sampleDeps_def
      bareStorage_def Get_def errorJSON_def)

text \<open>
  The action that the error names when the storage lacks the Updater capability.
\<close>

lemma update_without_updater_reports_create:
  "handleRESTStorage sampleDeps sampleHandler [''foo'', ''bar'']
     (sampleRequest ''PUT'' ''/foo/bar'' [] ''bar'') bareStorage ''ns1'' ''foo'' =
   (Returns 405 (ErrorJSON (MethodNotSupported ''foo'' ''create'')), [])"
  by (simp add: handle_PUT sampleRequest_def sampleDeps_def bareStorage_def errorJSON_def)

section \<open>Failures of the self-link\<close>

text \<open>
  Claim C2, as amended. An error of the self-link rewrite is fatal exactly on the
  synchronous path: in List and Get the request is answered with that error. As the hook
  of the operation of a Create or an Update the error is logged and nothing else; once the
  operation is complete the response carries the status of the completion and the result
  object of the backend. After a Create the object is unchanged. After an Update it is
  unchanged when the namespace accessor or the setting of its own link failed. Otherwise
  it is a list that carries its own link, and the error is one of three: the extraction
  of the items, and the list is changed no further; the rewrite of one item, and the list
  is seen with the items before that one as their rewrites left them, that item and the
  items after it as they were; or the write-back, and the list is seen with every item as
  its rewrite left it. The list is seen through \<open>inPlace\<close>: the links of the items show as
  far as the extracted items point into the list.
\<close>

theorem self_link_failure_policy:
  "(f (Object result) req = Err err obj'
    \<longrightarrow> curry_hook f req result = Some (result\<lparr>Object := obj'\<rparr>, [LogError err]))
   \<and> (Method req = ''GET'' \<and> length parts = 1
      \<and> ParseSelector D (Get (RawQuery (URL req)) ''labels'') = Inr label
      \<and> ParseSelector D (Get (RawQuery (URL req)) ''fields'') = Inr field
      \<and> Lister storage = Some lister \<and> lister namespace label field = Inr list
      \<and> setSelfLink D h list req = Err err list'
    \<longrightarrow> fst (handleRESTStorage D h parts req storage namespace kind) = errorJSON D err)
   \<and> (Method req = ''GET'' \<and> length parts = 2
      \<and> Getter storage = Some getter \<and> getter namespace (parts ! 1) = Inr item
      \<and> setSelfLink D h item req = Err err item'
    \<longrightarrow> fst (handleRESTStorage D h parts req storage namespace kind) = errorJSON D err)
   \<and> (Method req = ''POST'' \<and> length parts = 1
      \<and> Creater storage = Some creater
      \<and> Body req = Inr body \<and> codec h body (New storage) = Inr obj
      \<and> admissionControl h \<lparr>GetObject = Some obj, GetNamespace = namespace,
            GetKind = parts ! 0, GetOperation = ''CREATE''\<rparr> = None
      \<and> creater namespace obj = Inr (Delivers d result)
      \<and> d \<le> parseTimeout D (Get (RawQuery (URL req)) ''timeout'')
      \<and> setSelfLinkAddName h (Object result) req = Err err obj'
    \<longrightarrow> handleRESTStorage D h parts req storage namespace kind =
          (Returns (completion_status result True)
             (WriteJSON (completion_status result True) (Object result)),
           [CallReadBody, CallDecodeInto body,
            CallAdmit \<lparr>GetObject = Some obj, GetNamespace = namespace,
              GetKind = parts ! 0, GetOperation = ''CREATE''\<rparr>,
            CallCreate obj,
            CallNewOperation,
            CallWaitFor (parseTimeout D (Get (RawQuery (URL req)) ''timeout'')),
            CallOnReceive, LogError err]))
   \<and> (Method req = ''PUT'' \<and> length parts = 2
      \<and> Updater storage = Some updater
      \<and> Body req = Inr body \<and> codec h body (New storage) = Inr obj
      \<and> admissionControl h \<lparr>GetObject = Some obj, GetNamespace = namespace,
            GetKind = parts ! 0, GetOperation = ''UPDATE''\<rparr> = None
      \<and> updater namespace obj = Inr (Delivers d result)
      \<and> d \<le> parseTimeout D (Get (RawQuery (URL req)) ''timeout'')
      \<and> setSelfLink D h (Object result) req = Err err obj'
    \<longrightarrow> handleRESTStorage D h parts req storage namespace kind =
          (Returns (completion_status (result\<lparr>Object := obj'\<rparr>) True)
             (WriteJSON (completion_status (result\<lparr>Object := obj'\<rparr>) True) obj'),
           [CallReadBody, CallDecodeInto body,
            CallAdmit \<lparr>GetObject = Some obj, GetNamespace = namespace,
              GetKind = parts ! 0, GetOperation = ''UPDATE''\<rparr>,
            CallUpdate obj,
            CallNewOperation,
            CallWaitFor (parseTimeout D (Get (RawQuery (URL req)) ''timeout'')),
            CallOnReceive, LogError err])
        \<and> (obj' = Object result
             \<and> (Namespace (selfLinker h) (Object result) = Inl err
                \<or> (\<exists>ns u. Namespace (selfLinker h) (Object result) = Inr ns
                      \<and> link_url h req [] ns = Some u
                      \<and> SetSelfLink (selfLinker h) (Object result) u = Inl err))
           \<or> (\<exists>ns u linked.
                 Namespace (selfLinker h) (Object result) = Inr ns
               \<and> link_url h req [] ns = Some u
               \<and> SetSelfLink (selfLinker h) (Object result) u = Inr linked
               \<and> IsListType D linked
               \<and> (obj' = linked \<and> ExtractList D linked = Inl err
                  \<or> (\<exists>before before' item rest.
                        ExtractList D linked = Inr (before @ item # rest)
                      \<and> list_all2
                           (\<lambda>member member'. setSelfLinkAddName h member req = Ok member')
                           before before'
                      \<and> setSelfLinkAddName h item req = Err err item
                      \<and> obj' = inPlace D linked (before' @ item # rest))
                  \<or> (\<exists>items items'.
                        ExtractList D linked = Inr items
                      \<and> list_all2
                           (\<lambda>member member'. setSelfLinkAddName h member req = Ok member')
                           items items'
                      \<and> SetList D (inPlace D linked items') items' = Inl err
                      \<and> obj' = inPlace D linked items')))))"
proof (intro conjI impI)
  assume "f (Object result) req = Err err obj'"
  then show "curry_hook f req result = Some (result\<lparr>Object := obj'\<rparr>, [LogError err])"
    by (simp add: curry_hook_def)
next
  assume "Method req = ''GET'' \<and> length parts = 1
      \<and> ParseSelector D (Get (RawQuery (URL req)) ''labels'') = Inr label
      \<and> ParseSelector D (Get (RawQuery (URL req)) ''fields'') = Inr field
      \<and> Lister storage = Some lister \<and> lister namespace label field = Inr list
      \<and> setSelfLink D h list req = Err err list'"
  then show "fst (handleRESTStorage D h parts req storage namespace kind) = errorJSON D err"
    by (simp add: handle_LIST)
next
  assume "Method req = ''GET'' \<and> length parts = 2
      \<and> Getter storage = Some getter \<and> getter namespace (parts ! 1) = Inr item
      \<and> setSelfLink D h item req = Err err item'"
  then show "fst (handleRESTStorage D h parts req storage namespace kind) = errorJSON D err"
    by (simp add: handle_GET)
next
  assume a: "Method req = ''POST'' \<and> length parts = 1
      \<and> Creater storage = Some creater
      \<and> Body req = Inr body \<and> codec h body (New storage) = Inr obj
      \<and> admissionControl h \<lparr>GetObject = Some obj, GetNamespace = namespace,
            GetKind = parts ! 0, GetOperation = ''CREATE''\<rparr> = None
      \<and> creater namespace obj = Inr (Delivers d result)
      \<and> d \<le> parseTimeout D (Get (RawQuery (URL req)) ''timeout'')
      \<and> setSelfLinkAddName h (Object result) req = Err err obj'"
  then have "obj' = Object result"
    by (auto dest: setSelfLinkAddName_Err)
  with a show "handleRESTStorage D h parts req storage namespace kind =
          (Returns (completion_status result True)
             (WriteJSON (completion_status result True) (Object result)),
           [CallReadBody, CallDecodeInto body,
            CallAdmit \<lparr>GetObject = Some obj, GetNamespace = namespace,
              GetKind = parts ! 0, GetOperation = ''CREATE''\<rparr>,
            CallCreate obj,
            CallNewOperation,
            CallWaitFor (parseTimeout D (Get (RawQuery (URL req)) ''timeout'')),
            CallOnReceive, LogError err])"
    by (simp add: handle_POST completion_hook_failure)
next
  assume a: "Method req = ''PUT'' \<and> length parts = 2
      \<and> Updater storage = Some updater
      \<and> Body req = Inr body \<and> codec h body (New storage) = Inr obj
      \<and> admissionControl h \<lparr>GetObject = Some obj, GetNamespace = namespace,
            GetKind = parts ! 0, GetOperation = ''UPDATE''\<rparr> = None
      \<and> updater namespace obj = Inr (Delivers d result)
      \<and> d \<le> parseTimeout D (Get (RawQuery (URL req)) ''timeout'')
      \<and> setSelfLink D h (Object result) req = Err err obj'"
  then show "handleRESTStorage D h parts req storage namespace kind =
          (Returns (completion_status (result\<lparr>Object := obj'\<rparr>) True)
             (WriteJSON (completion_status (result\<lparr>Object := obj'\<rparr>) True) obj'),
           [CallReadBody, CallDecodeInto body,
            CallAdmit \<lparr>GetObject = Some obj, GetNamespace = namespace,
              GetKind = parts ! 0, GetOperation = ''UPDATE''\<rparr>,
            CallUpdate obj,
            CallNewOperation,
            CallWaitFor (parseTimeout D (Get (RawQuery (URL req)) ''timeout'')),
            CallOnReceive, LogError err])"
    by (simp add: handle_PUT completion_hook_failure)
  from a have "setSelfLink D h (Object result) req = Err err obj'"
    by simp
  then show "obj' = Object result
             \<and> (Namespace (selfLinker h) (Object result) = Inl err
                \<or> (\<exists>ns u. Namespace (selfLinker h) (Object result) = Inr ns
                      \<and> link_url h req [] ns = Some u
                      \<and> SetSelfLink (selfLinker h) (Object result) u = Inl err))
           \<or> (\<exists>ns u linked.
                 Namespace (selfLinker h) (Object result) = Inr ns
               \<and> link_url h req [] ns = Some u
               \<and> SetSelfLink (selfLinker h) (Object result) u = Inr linked
               \<and> IsListType D linked
               \<and> (obj' = linked \<and> ExtractList D linked = Inl err
                  \<or> (\<exists>before before' item rest.
                        ExtractList D linked = Inr (before @ item # rest)
                      \<and> list_all2
                           (\<lambda>member member'. setSelfLinkAddName h member req = Ok member')
                           before before'
                      \<and> setSelfLinkAddName h item req = Err err item
                      \<and> obj' = inPlace D linked (before' @ item # rest))
                  \<or> (\<exists>items items'.
                        ExtractList D linked = Inr items
                      \<and> list_all2
                           (\<lambda>member member'. setSelfLinkAddName h member req = Ok member')
                           items items'
                      \<and> SetList D (inPlace D linked items') items' = Inl err
                      \<and> obj' = inPlace D linked items')))"
    by (rule setSelfLink_Err_state)
qed

text \<open>
  On the sample server: the hook of a creation whose result has no name, the list under
  the label \<^verbatim>\<open>state=broken\<close>, the object \<^verbatim>\<open>lost\<close>, the creation of \<^verbatim>\<open>ghost\<close>, and the update of
  \<^verbatim>\<open>some\<close>, whose result is a list of three items, the second without a name: the response
  is that list with its own link and the link of its first item, and the error is logged.
\<close>

theorem self_link_failure_policy_witness:
  "curry_hook (setSelfLinkAddName sampleHandler) (sampleRequest ''POST'' ''/foo'' [] ''ghost'')
     \<lparr>Object = Resource Opaque, Created = True\<rparr> =
     Some (\<lparr>Object = Resource Opaque, Created = True\<rparr>, [LogError (Failure ''no name'')])
   \<and> fst (handleRESTStorage sampleDeps sampleHandler [''foo'']
     (sampleRequest ''GET'' ''/foo'' [(''labels'', ''state=broken'')] []) sampleStorage ''ns1'' ''foo'') =
     Returns 500 (ErrorJSON (Failure ''no namespace''))
   \<and> fst (handleRESTStorage sampleDeps sampleHandler [''foo'', ''lost'']
     (sampleRequest ''GET'' ''/foo/lost'' [] []) sampleStorage ''ns1'' ''foo'') =
     Returns 500 (ErrorJSON (Failure ''no namespace''))
   \<and> handleRESTStorage sampleDeps sampleHandler [''foo'']
     (sampleRequest ''POST'' ''/foo'' [] ''ghost'') sampleStorage ''ns1'' ''foo'' =
     (Returns 201 (WriteJSON 201 (Resource Opaque)),
      [CallReadBody, CallDecodeInto ''ghost'',
       CallAdmit \<lparr>GetObject = Some (Resource (Meta ''ghost'' ''ns1'' None None)),
         GetNamespace = ''ns1'', GetKind = ''foo'', GetOperation = ''CREATE''\<rparr>,
       CallCreate (Resource (Meta ''ghost'' ''ns1'' None None)),
       CallNewOperation, CallWaitFor 30, CallOnReceive, LogError (Failure ''no name'')])
   \<and> handleRESTStorage sampleDeps sampleHandler [''foo'', ''some'']
       (sampleRequest ''PUT'' ''/foo/some'' [] ''some'') sampleStorage ''ns1'' ''foo'' =
     (Returns 200 (WriteJSON 200 (Resource (Meta ''some'' ''ns1''
        (Some \<lparr>Host = [], Path = ''/api/v1beta1/foo/some'',
                RawQuery = [(''namespace'', ''ns1'')], Fragment = []\<rparr>)
        (Some [Meta ''a'' ''ns1''
                 (Some \<lparr>Host = [], Path = ''/api/v1beta1/foo/some/a'',
                         RawQuery = [(''namespace'', ''ns1'')], Fragment = []\<rparr>) None,
               Opaque,
               Meta ''b'' ''ns1'' None None])))),
      [CallReadBody, CallDecodeInto ''some'',
       CallAdmit \<lparr>GetObject = Some (Resource (Meta ''some'' ''ns1'' None None)),
         GetNamespace = ''ns1'', GetKind = ''foo'', GetOperation = ''UPDATE''\<rparr>,
       CallUpdate (Resource (Meta ''some'' ''ns1'' None None)),
       CallNewOperation, CallWaitFor 30, CallOnReceive, LogError (Failure ''no name'')])"
proof -
  have run: "setSelfLink sampleDeps sampleHandler
       (Resource (Meta ''some'' ''ns1'' None
          (Some [Meta ''a'' ''ns1'' None None, Opaque, Meta ''b'' ''ns1'' None None])))
       (sampleRequest ''PUT'' ''/foo/some'' [] ''some'') =
     Err (Failure ''no name'')
       (Resource (Meta ''some'' ''ns1''
        (Some \<lparr>Host = [], Path = ''/api/v1beta1/foo/some'',
                RawQuery = [(''namespace'', ''ns1'')], Fragment = []\<rparr>)
        (Some [Meta ''a'' ''ns1''
                 (Some \<lparr>Host = [], Path = ''/api/v1beta1/foo/some/a'',
                         RawQuery = [(''namespace'', ''ns1'')], Fragment = []\<rparr>) None,
               Opaque,
               Meta ''b'' ''ns1'' None None])))"
    by (simp add: sample_defs run_defs)
  have given: "Method (sampleRequest ''PUT'' ''/foo/some'' [] ''some'') = ''PUT''
      \<and> length [''foo'', ''some''] = 2
      \<and> Updater sampleStorage = Some (the (Updater sampleStorage))
      \<and> Body (sampleRequest ''PUT'' ''/foo/some'' [] ''some'') = Inr ''some''
      \<and> codec sampleHandler ''some'' (New sampleStorage) =
          Inr (Resource (Meta ''some'' ''ns1'' None None))
      \<and> admissionControl sampleHandler
          \<lparr>GetObject = Some (Resource (Meta ''some'' ''ns1'' None None)),
           GetNamespace = ''ns1'', GetKind = [''foo'', ''some''] ! 0,
           GetOperation = ''UPDATE''\<rparr> = None
      \<and> the (Updater sampleStorage) ''ns1'' (Resource (Meta ''some'' ''ns1'' None None)) =
          Inr (Delivers 0
            \<lparr>Object = Resource (Meta ''some'' ''ns1'' None
               (Some [Meta ''a'' ''ns1'' None None, Opaque, Meta ''b'' ''ns1'' None None])),
             Created = False\<rparr>)
      \<and> 0 \<le> parseTimeout sampleDeps
               (Get (RawQuery (URL (sampleRequest ''PUT'' ''/foo/some'' [] ''some''))) ''timeout'')
      \<and> setSelfLink sampleDeps sampleHandler
          (Object \<lparr>Object = Resource (Meta ''some'' ''ns1'' None
               (Some [Meta ''a'' ''ns1'' None None, Opaque, Meta ''b'' ''ns1'' None None])),
             Created = False\<rparr>)
          (sampleRequest ''PUT'' ''/foo/some'' [] ''some'') =
        Err (Failure ''no name'')
          (Resource (Meta ''some'' ''ns1''
            (Some \<lparr>Host = [], Path = ''/api/v1beta1/foo/some'',
                    RawQuery = [(''namespace'', ''ns1'')], Fragment = []\<rparr>)
            (Some [Meta ''a'' ''ns1''
                     (Some \<lparr>Host = [], Path = ''/api/v1beta1/foo/some/a'',
                             RawQuery = [(''namespace'', ''ns1'')], Fragment = []\<rparr>) None,
                   Opaque,
                   Meta ''b'' ''ns1'' None None])))"
    using run by (simp add: sample_defs Get_def)
  note update = self_link_failure_policy [THEN conjunct2, THEN conjunct2, THEN conjunct2,
      THEN conjunct2, THEN mp, OF given, THEN conjunct1]
  show ?thesis
    using self_link_failure_policy [where f = "setSelfLinkAddName sampleHandler"
        and req = "sampleRequest ''POST'' ''/foo'' [] ''ghost''"
        and result = "\<lparr>Object = Resource Opaque, Created = True\<rparr>"
        and obj' = "Resource Opaque" and err = "Failure ''no name''", THEN conjunct1]
      self_link_failure_policy [where req = "sampleRequest ''GET'' ''/foo'' [(''labels'', ''state=broken'')] []"
        and parts = "[''foo'']" and storage = sampleStorage and h = sampleHandler
        and D = sampleDeps and namespace = "''ns1''" and kind = "''foo''"
        and label = "''state=broken''" and field = "[]" and lister = "the (Lister sampleStorage)"
        and list = "Resource Opaque" and list' = "Resource Opaque"
        and err = "Failure ''no namespace''", THEN conjunct2, THEN conjunct1]
      self_link_failure_policy [where req = "sampleRequest ''GET'' ''/foo/lost'' [] []"
        and parts = "[''foo'', ''lost'']" and storage = sampleStorage and h = sampleHandler
        and D = sampleDeps and namespace = "''ns1''" and kind = "''foo''"
        and getter = "the (Getter sampleStorage)"
        and item = "Resource Opaque" and item' = "Resource Opaque"
        and err = "Failure ''no namespace''", THEN conjunct2, THEN conjunct2, THEN conjunct1]
      self_link_failure_policy [where req = "sampleRequest ''POST'' ''/foo'' [] ''ghost''"
        and parts = "[''foo'']" and storage = sampleStorage and h = sampleHandler
        and D = sampleDeps and namespace = "''ns1''" and kind = "''foo''"
        and creater = "the (Creater sampleStorage)" and body = "''ghost''"
        and obj = "Resource (Meta ''ghost'' ''ns1'' None None)" and d = 0
        and result = "\<lparr>Object = Resource Opaque, Created = True\<rparr>"
        and obj' = "Resource Opaque"
        and err = "Failure ''no name''", THEN conjunct2, THEN conjunct2, THEN conjunct2, THEN conjunct1]
      update
    by (simp add: sample_defs run_defs completion_status_def embedded_code_def)
qed

text \<open>
  As stated, with the object unchanged but for the missing self-link after any failure,
  claim C2 fails: the update of \<^verbatim>\<open>all\<close> answers with a list whose first item has no name.
  The failure is logged, and the list in the response is not the list of the backend: it
  carries its own self-link.
\<close>

theorem self_link_failure_policy_counterexample:
  "the (Updater sampleStorage) ''ns1'' (Resource (Meta ''all'' ''ns1'' None None)) =
     Inr (Delivers 0
       \<lparr>Object = Resource (Meta ''all'' ''ns1'' None (Some [Opaque, Meta ''a'' ''ns1'' None None])),
        Created = False\<rparr>)
   \<and> handleRESTStorage sampleDeps sampleHandler [''foo'', ''all'']
       (sampleRequest ''PUT'' ''/foo/all'' [] ''all'') sampleStorage ''ns1'' ''foo'' =
     (Returns 200 (WriteJSON 200 (Resource (Meta ''all'' ''ns1''
        (Some \<lparr>Host = [], Path = ''/api/v1beta1/foo/all'',
                RawQuery = [(''namespace'', ''ns1'')], Fragment = []\<rparr>)
        (Some [Opaque, Meta ''a'' ''ns1'' None None])))),
      [CallReadBody, CallDecodeInto ''all'',
       CallAdmit \<lparr>GetObject = Some (Resource (Meta ''all'' ''ns1'' None None)),
         GetNamespace = ''ns1'', GetKind = ''foo'', GetOperation = ''UPDATE''\<rparr>,
       CallUpdate (Resource (Meta ''all'' ''ns1'' None None)),
       CallNewOperation, CallWaitFor 30, CallOnReceive, LogError (Failure ''no name'')])
   \<and> Resource (Meta ''all'' ''ns1''
        (Some \<lparr>Host = [], Path = ''/api/v1beta1/foo/all'',
                RawQuery = [(''namespace'', ''ns1'')], Fragment = []\<rparr>)
        (Some [Opaque, Meta ''a'' ''ns1'' None None])) \<noteq>
     Resource (Meta ''all'' ''ns1'' None (Some [Opaque, Meta ''a'' ''ns1'' None None]))"
  by (simp add: handle_PUT sample_defs run_defs)

section \<open>The completion status\<close>

text \<open>
  Claim C3. For every completed operation the response status is "created" (201) if the
  created flag of the result is true and "ok" (200) otherwise; a non-zero code embedded in
  the result object overrides it regardless of the flag; an operation that is not complete
  after the wait is answered with "accepted" (202) and the placeholder body that the
  handle returns. \<open>completion_status\<close> is this table; \<^verbatim>\<open>finishReq\<close> writes the status of the
  table and the object that \<^verbatim>\<open>StatusOrResult\<close> returned.
\<close>

theorem finishReq_status:
  "finishReq h op req =
     Returns (completion_status (fst (StatusOrResult op)) (snd (StatusOrResult op)))
       (WriteJSON (completion_status (fst (StatusOrResult op)) (snd (StatusOrResult op)))
          (Object (fst (StatusOrResult op))))"
  by (simp add: finishReq_def completion_status_def embedded_code_def Let_def
      split: prod.splits Object.splits)

theorem finishReq_status_witness:
  "finishReq sampleHandler
     \<lparr>ID = 1, awaiting = Silent, onReceive = None,
      finished = Some \<lparr>Object = StatusObject \<lparr>Status = ''failure'', Code = 409,
                          Reason = ''conflict'', Details_ID = 0, Details_Kind = []\<rparr>,
                        Created = True\<rparr>\<rparr>
     (sampleRequest ''POST'' ''/foo'' [] ''x'') =
     Returns 409 (WriteJSON 409 (StatusObject \<lparr>Status = ''failure'', Code = 409,
       Reason = ''conflict'', Details_ID = 0, Details_Kind = []\<rparr>))
   \<and> finishReq sampleHandler
     \<lparr>ID = 1, awaiting = Silent, onReceive = None,
      finished = Some \<lparr>Object = Resource Opaque, Created = True\<rparr>\<rparr>
     (sampleRequest ''POST'' ''/foo'' [] ''x'') =
     Returns 201 (WriteJSON 201 (Resource Opaque))
   \<and> finishReq sampleHandler
     \<lparr>ID = 1, awaiting = Silent, onReceive = None,
      finished = Some \<lparr>Object = Resource Opaque, Created = False\<rparr>\<rparr>
     (sampleRequest ''POST'' ''/foo'' [] ''x'') =
     Returns 200 (WriteJSON 200 (Resource Opaque))
   \<and> finishReq sampleHandler
     \<lparr>ID = 1, awaiting = Silent, onReceive = None, finished = None\<rparr>
     (sampleRequest ''POST'' ''/foo'' [] ''x'') =
     Returns 202 (WriteJSON 202 (StatusObject \<lparr>Status = ''working'', Code = 0,
       Reason = ''working'', Details_ID = 1, Details_Kind = ''operation''\<rparr>))"
  using finishReq_status [of sampleHandler
      "\<lparr>ID = 1, awaiting = Silent, onReceive = None,
        finished = Some \<lparr>Object = StatusObject \<lparr>Status = ''failure'', Code = 409,
                            Reason = ''conflict'', Details_ID = 0, Details_Kind = []\<rparr>,
                          Created = True\<rparr>\<rparr>" "sampleRequest ''POST'' ''/foo'' [] ''x''"]
    finishReq_status [of sampleHandler
      "\<lparr>ID = 1, awaiting = Silent, onReceive = None,
        finished = Some \<lparr>Object = Resource Opaque, Created = True\<rparr>\<rparr>"
      "sampleRequest ''POST'' ''/foo'' [] ''x''"]
    finishReq_status [of sampleHandler
      "\<lparr>ID = 1, awaiting = Silent, onReceive = None,
        finished = Some \<lparr>Object = Resource Opaque, Created = False\<rparr>\<rparr>"
      "sampleRequest ''POST'' ''/foo'' [] ''x''"]
    finishReq_status [of sampleHandler
      "\<lparr>ID = 1, awaiting = Silent, onReceive = None, finished = None\<rparr>"
      "sampleRequest ''POST'' ''/foo'' [] ''x''"]
  by (simp add: StatusOrResult_def completion_status_def embedded_code_def)

section \<open>The admission controller\<close>

text \<open>
  The trace of a request that reaches the admission controller, and of one that does not.
\<close>

lemma admit_split_unique:
  assumes "filter is_admit pre0 = []" and "filter is_admit post0 = []"
    and "pre0 @ CallAdmit att0 # post0 = pre @ CallAdmit att # post"
  shows "pre = pre0 \<and> att = att0 \<and> post = post0"
  using assms
proof (induction pre0 arbitrary: pre)
  case Nil
  then show ?case
    by (cases pre) (auto simp add: filter_empty_conv)
next
  case (Cons e pre0)
  then show ?case
    by (cases pre) (auto simp add: filter_empty_conv split: if_splits)
qed

lemma no_gate:
  assumes "\<not> reaches_gate h parts req storage"
  shows "filter is_admit (snd (handleRESTStorage D h parts req storage namespace kind)) = []
       \<and> (Method req \<noteq> ''GET'' \<longrightarrow>
            filter is_backend_call
              (snd (handleRESTStorage D h parts req storage namespace kind)) = [])"
proof (cases "route (Method req) (length parts)")
  case None
  then show ?thesis
    by (simp add: unrouted)
next
  case (Some a)
  then have where_routed:
    "(a = ActList \<and> Method req = ''GET'' \<and> length parts = 1)
     \<or> (a = ActGet \<and> Method req = ''GET'' \<and> length parts = 2)
     \<or> (a = ActCreate \<and> Method req = ''POST'' \<and> length parts = 1)
     \<or> (a = ActUpdate \<and> Method req = ''PUT'' \<and> length parts = 2)
     \<or> (a = ActDelete \<and> Method req = ''DELETE'' \<and> length parts = 2)"
    by (simp add: route_Some)
  from assms Some have stopped:
    "\<not> mutating a \<or> \<not> capable storage a \<or> (a \<noteq> ActDelete \<and> decoded h req storage = None)"
    by (auto simp add: reaches_gate_def)
  show ?thesis
  proof (cases a)
    case ActList
    with where_routed show ?thesis
      by (simp add: handle_GET_no_admit)
  next
    case ActGet
    with where_routed show ?thesis
      by (simp add: handle_GET_no_admit)
  next
    case ActCreate
    with where_routed stopped show ?thesis
      by (auto simp add: handle_POST mutating_def capable_def decoded_def
          split: option.splits sum.splits)
  next
    case ActUpdate
    with where_routed stopped show ?thesis
      by (auto simp add: handle_PUT mutating_def capable_def decoded_def
          split: option.splits sum.splits)
  next
    case ActDelete
    with where_routed stopped show ?thesis
      by (auto simp add: handle_DELETE mutating_def capable_def decoded_def
          split: option.splits sum.splits)
  qed
qed

lemma decoded_shape:
  assumes tr: "tr = [CallReadBody, CallDecodeInto body, CallAdmit att] @ post"
    and "Body req = Inr body" and "codec h body (New storage) = Inr obj"
    and "GetObject att = Some obj" and "GetOperation att \<noteq> ''DELETE''"
    and "filter is_admit post = []"
    and "\<forall>err. admissionControl h att = Some err \<longrightarrow> post = [] \<and> out = errorJSON D err"
  shows "\<exists>pre att post.
           tr = pre @ CallAdmit att # post
         \<and> filter is_admit pre = [] \<and> filter is_admit post = []
         \<and> filter is_backend_call pre = []
         \<and> (if GetOperation att = ''DELETE'' then pre = []
            else (\<exists>body. Body req = Inr body \<and> pre = [CallReadBody, CallDecodeInto body])
                 \<and> decoded h req storage = GetObject att \<and> GetObject att \<noteq> None)
         \<and> (\<forall>err. admissionControl h att = Some err \<longrightarrow> post = [] \<and> out = errorJSON D err)"
  apply (rule exI [of _ "[CallReadBody, CallDecodeInto body]"])
  apply (rule exI [of _ att])
  apply (rule exI [of _ post])
  using assms apply (simp add: decoded_def)
  done

lemma delete_shape:
  assumes tr: "tr = CallAdmit att # post"
    and "GetOperation att = ''DELETE''"
    and "filter is_admit post = []"
    and "\<forall>err. admissionControl h att = Some err \<longrightarrow> post = [] \<and> out = errorJSON D err"
  shows "\<exists>pre att post.
           tr = pre @ CallAdmit att # post
         \<and> filter is_admit pre = [] \<and> filter is_admit post = []
         \<and> filter is_backend_call pre = []
         \<and> (if GetOperation att = ''DELETE'' then pre = []
            else (\<exists>body. Body req = Inr body \<and> pre = [CallReadBody, CallDecodeInto body])
                 \<and> decoded h req storage = GetObject att \<and> GetObject att \<noteq> None)
         \<and> (\<forall>err. admissionControl h att = Some err \<longrightarrow> post = [] \<and> out = errorJSON D err)"
  apply (rule exI [of _ "[]"])
  apply (rule exI [of _ att])
  apply (rule exI [of _ post])
  using assms apply simp
  done

lemma gate_shape:
  assumes "reaches_gate h parts req storage"
  shows "\<exists>pre att post.
           snd (handleRESTStorage D h parts req storage namespace kind) = pre @ CallAdmit att # post
         \<and> filter is_admit pre = [] \<and> filter is_admit post = []
         \<and> filter is_backend_call pre = []
         \<and> (if GetOperation att = ''DELETE'' then pre = []
            else (\<exists>body. Body req = Inr body \<and> pre = [CallReadBody, CallDecodeInto body])
                 \<and> decoded h req storage = GetObject att \<and> GetObject att \<noteq> None)
         \<and> (\<forall>err. admissionControl h att = Some err \<longrightarrow>
               post = []
             \<and> fst (handleRESTStorage D h parts req storage namespace kind) = errorJSON D err)"
proof -
  from assms obtain a where r: "route (Method req) (length parts) = Some a"
    and m: "mutating a" and c: "capable storage a"
    and d: "a = ActDelete \<or> decoded h req storage \<noteq> None"
    by (auto simp add: reaches_gate_def split: option.splits)
  show ?thesis
  proof (cases a)
    case ActList
    with m show ?thesis by (simp add: mutating_def)
  next
    case ActGet
    with m show ?thesis by (simp add: mutating_def)
  next
    case ActCreate
    with r c d obtain creater body obj where "Method req = ''POST''" "length parts = 1"
      "Creater storage = Some creater" and b: "Body req = Inr body"
      and o: "codec h body (New storage) = Inr obj"
      by (auto simp add: route_Some capable_def decoded_def split: sum.splits)
    then have "\<exists>post.
        snd (handleRESTStorage D h parts req storage namespace kind) =
          [CallReadBody, CallDecodeInto body,
           CallAdmit \<lparr>GetObject = Some obj, GetNamespace = namespace,
             GetKind = parts ! 0, GetOperation = ''CREATE''\<rparr>] @ post
      \<and> filter is_admit post = []
      \<and> (\<forall>err. admissionControl h \<lparr>GetObject = Some obj, GetNamespace = namespace,
             GetKind = parts ! 0, GetOperation = ''CREATE''\<rparr> = Some err \<longrightarrow>
           post = []
         \<and> fst (handleRESTStorage D h parts req storage namespace kind) = errorJSON D err)"
      by (simp add: handle_POST split: option.splits sum.splits)
    then obtain post where
      "snd (handleRESTStorage D h parts req storage namespace kind) =
          [CallReadBody, CallDecodeInto body,
           CallAdmit \<lparr>GetObject = Some obj, GetNamespace = namespace,
             GetKind = parts ! 0, GetOperation = ''CREATE''\<rparr>] @ post"
      "filter is_admit post = []"
      "\<forall>err. admissionControl h \<lparr>GetObject = Some obj, GetNamespace = namespace,
             GetKind = parts ! 0, GetOperation = ''CREATE''\<rparr> = Some err \<longrightarrow>
           post = []
         \<and> fst (handleRESTStorage D h parts req storage namespace kind) = errorJSON D err"
      by blast
    then show ?thesis
      using b o by (intro decoded_shape [where obj = obj]) simp_all
  next
    case ActUpdate
    with r c d obtain updater body obj where "Method req = ''PUT''" "length parts = 2"
      "Updater storage = Some updater" and b: "Body req = Inr body"
      and o: "codec h body (New storage) = Inr obj"
      by (auto simp add: route_Some capable_def decoded_def split: sum.splits)
    then have "\<exists>post.
        snd (handleRESTStorage D h parts req storage namespace kind) =
          [CallReadBody, CallDecodeInto body,
           CallAdmit \<lparr>GetObject = Some obj, GetNamespace = namespace,
             GetKind = parts ! 0, GetOperation = ''UPDATE''\<rparr>] @ post
      \<and> filter is_admit post = []
      \<and> (\<forall>err. admissionControl h \<lparr>GetObject = Some obj, GetNamespace = namespace,
             GetKind = parts ! 0, GetOperation = ''UPDATE''\<rparr> = Some err \<longrightarrow>
           post = []
         \<and> fst (handleRESTStorage D h parts req storage namespace kind) = errorJSON D err)"
      by (simp add: handle_PUT split: option.splits sum.splits)
    then obtain post where
      "snd (handleRESTStorage D h parts req storage namespace kind) =
          [CallReadBody, CallDecodeInto body,
           CallAdmit \<lparr>GetObject = Some obj, GetNamespace = namespace,
             GetKind = parts ! 0, GetOperation = ''UPDATE''\<rparr>] @ post"
      "filter is_admit post = []"
      "\<forall>err. admissionControl h \<lparr>GetObject = Some obj, GetNamespace = namespace,
             GetKind = parts ! 0, GetOperation = ''UPDATE''\<rparr> = Some err \<longrightarrow>
           post = []
         \<and> fst (handleRESTStorage D h parts req storage namespace kind) = errorJSON D err"
      by blast
    then show ?thesis
      using b o by (intro decoded_shape [where obj = obj]) simp_all
  next
    case ActDelete
    with r c obtain deleter where "Method req = ''DELETE''" "length parts = 2"
      "Deleter storage = Some deleter"
      by (auto simp add: route_Some capable_def)
    then have "\<exists>post.
        snd (handleRESTStorage D h parts req storage namespace kind) =
          CallAdmit \<lparr>GetObject = None, GetNamespace = namespace,
             GetKind = parts ! 0, GetOperation = ''DELETE''\<rparr> # post
      \<and> filter is_admit post = []
      \<and> (\<forall>err. admissionControl h \<lparr>GetObject = None, GetNamespace = namespace,
             GetKind = parts ! 0, GetOperation = ''DELETE''\<rparr> = Some err \<longrightarrow>
           post = []
         \<and> fst (handleRESTStorage D h parts req storage namespace kind) = errorJSON D err)"
      by (simp add: handle_DELETE split: option.splits sum.splits)
    then obtain post where
      "snd (handleRESTStorage D h parts req storage namespace kind) =
          CallAdmit \<lparr>GetObject = None, GetNamespace = namespace,
             GetKind = parts ! 0, GetOperation = ''DELETE''\<rparr> # post"
      "filter is_admit post = []"
      "\<forall>err. admissionControl h \<lparr>GetObject = None, GetNamespace = namespace,
             GetKind = parts ! 0, GetOperation = ''DELETE''\<rparr> = Some err \<longrightarrow>
           post = []
         \<and> fst (handleRESTStorage D h parts req storage namespace kind) = errorJSON D err"
      by blast
    then show ?thesis
      by (intro delete_shape) simp_all
  qed
qed

text \<open>
  Claim C4, as amended. The admission controller is invoked exactly once by a request
  that is routed to Create, Update or Delete, whose storage has the capability of the
  action and, for Create and Update, whose body is read and decoded; it is invoked by no
  other request, so by no List and no Get. Where it is invoked, no backend method has
  been called before; for Create and Update the body has been read and decoded before,
  and the decoded object is the one it is asked about; and when it refuses, nothing
  follows: the request is answered with its error and no backend method is called. A
  mutating request that stops before the admission controller calls no backend method.
\<close>

theorem admission_gate_discipline:
  assumes run: "handleRESTStorage D h parts req storage namespace kind = (out, tr)"
  shows "length (filter is_admit tr) = (if reaches_gate h parts req storage then 1 else 0)
       \<and> (Method req = ''GET'' \<longrightarrow> filter is_admit tr = [])
       \<and> (\<forall>pre att post. tr = pre @ CallAdmit att # post \<longrightarrow>
             filter is_backend_call pre = []
           \<and> (if GetOperation att = ''DELETE'' then pre = []
              else (\<exists>body. Body req = Inr body \<and> pre = [CallReadBody, CallDecodeInto body])
                   \<and> decoded h req storage = GetObject att \<and> GetObject att \<noteq> None)
           \<and> (\<forall>err. admissionControl h att = Some err \<longrightarrow> post = [] \<and> out = errorJSON D err))
       \<and> (\<not> reaches_gate h parts req storage \<and> Method req \<noteq> ''GET'' \<longrightarrow>
            filter is_backend_call tr = [])"
proof -
  from run have out: "fst (handleRESTStorage D h parts req storage namespace kind) = out"
    and tr: "snd (handleRESTStorage D h parts req storage namespace kind) = tr"
    by simp_all
  have reads: "Method req = ''GET'' \<longrightarrow> filter is_admit tr = []"
    using handle_GET_no_admit [of req D h parts storage namespace kind] tr by simp
  show ?thesis
  proof (cases "reaches_gate h parts req storage")
    case False
    from no_gate [OF False, of D namespace kind] tr
    have none: "filter is_admit tr = []"
      and calls: "Method req \<noteq> ''GET'' \<longrightarrow> filter is_backend_call tr = []"
      by simp_all
    have split: "\<forall>pre att post. tr = pre @ CallAdmit att # post \<longrightarrow>
             filter is_backend_call pre = []
           \<and> (if GetOperation att = ''DELETE'' then pre = []
              else (\<exists>body. Body req = Inr body \<and> pre = [CallReadBody, CallDecodeInto body])
                   \<and> decoded h req storage = GetObject att \<and> GetObject att \<noteq> None)
           \<and> (\<forall>err. admissionControl h att = Some err \<longrightarrow> post = [] \<and> out = errorJSON D err)"
    proof (intro allI impI)
      fix pre att post
      assume "tr = pre @ CallAdmit att # post"
      with none have False by simp
      then show "filter is_backend_call pre = []
           \<and> (if GetOperation att = ''DELETE'' then pre = []
              else (\<exists>body. Body req = Inr body \<and> pre = [CallReadBody, CallDecodeInto body])
                   \<and> decoded h req storage = GetObject att \<and> GetObject att \<noteq> None)
           \<and> (\<forall>err. admissionControl h att = Some err \<longrightarrow> post = [] \<and> out = errorJSON D err)"
        by (rule FalseE)
    qed
    from False none
    have count: "length (filter is_admit tr) = (if reaches_gate h parts req storage then 1 else 0)"
      by simp
    from calls
    have stopped: "\<not> reaches_gate h parts req storage \<and> Method req \<noteq> ''GET'' \<longrightarrow>
            filter is_backend_call tr = []"
      by simp
    show ?thesis
      using count reads split stopped by - (intro conjI, assumption+)
  next
    case True
    from gate_shape [OF True, of D namespace kind] out tr
    obtain pre0 att0 post0 where shape: "tr = pre0 @ CallAdmit att0 # post0"
      and pre0: "filter is_admit pre0 = []" and post0: "filter is_admit post0 = []"
      and calls: "filter is_backend_call pre0 = []"
      and dec: "if GetOperation att0 = ''DELETE'' then pre0 = []
            else (\<exists>body. Body req = Inr body \<and> pre0 = [CallReadBody, CallDecodeInto body])
                 \<and> decoded h req storage = GetObject att0 \<and> GetObject att0 \<noteq> None"
      and denied: "\<forall>err. admissionControl h att0 = Some err \<longrightarrow> post0 = [] \<and> out = errorJSON D err"
      by auto
    from shape pre0 post0 have once: "length (filter is_admit tr) = 1"
      by simp
    have same: "pre = pre0 \<and> att = att0 \<and> post = post0"
      if "tr = pre @ CallAdmit att # post" for pre att post
      using admit_split_unique [OF pre0 post0, of att0 pre att post] shape that by simp
    have split: "\<forall>pre att post. tr = pre @ CallAdmit att # post \<longrightarrow>
             filter is_backend_call pre = []
           \<and> (if GetOperation att = ''DELETE'' then pre = []
              else (\<exists>body. Body req = Inr body \<and> pre = [CallReadBody, CallDecodeInto body])
                   \<and> decoded h req storage = GetObject att \<and> GetObject att \<noteq> None)
           \<and> (\<forall>err. admissionControl h att = Some err \<longrightarrow> post = [] \<and> out = errorJSON D err)"
    proof (intro allI impI)
      fix pre att post
      assume "tr = pre @ CallAdmit att # post"
      from same [OF this] have "pre = pre0" and "att = att0" and "post = post0"
        by simp_all
      with calls dec denied show "filter is_backend_call pre = []
           \<and> (if GetOperation att = ''DELETE'' then pre = []
              else (\<exists>body. Body req = Inr body \<and> pre = [CallReadBody, CallDecodeInto body])
                   \<and> decoded h req storage = GetObject att \<and> GetObject att \<noteq> None)
           \<and> (\<forall>err. admissionControl h att = Some err \<longrightarrow> post = [] \<and> out = errorJSON D err)"
        by simp
    qed
    from True once
    have count: "length (filter is_admit tr) = (if reaches_gate h parts req storage then 1 else 0)"
      by simp
    from True
    have stopped: "\<not> reaches_gate h parts req storage \<and> Method req \<noteq> ''GET'' \<longrightarrow>
            filter is_backend_call tr = []"
      by simp
    show ?thesis
      using count reads split stopped by - (intro conjI, assumption+)
  qed
qed

theorem admission_gate_discipline_witness:
  "handleRESTStorage sampleDeps sampleHandler [''foo'']
     (sampleRequest ''POST'' ''/foo'' [] ''x'') sampleStorage ''ns1'' ''foo'' =
     (Returns 201 (WriteJSON 201 (Resource (Meta ''x'' ''ns1''
        (Some \<lparr>Host = [], Path = ''/api/v1beta1/foo/x'',
                RawQuery = [(''namespace'', ''ns1'')], Fragment = []\<rparr>) None))),
      [CallReadBody, CallDecodeInto ''x'',
       CallAdmit \<lparr>GetObject = Some (Resource (Meta ''x'' ''ns1'' None None)),
         GetNamespace = ''ns1'', GetKind = ''foo'', GetOperation = ''CREATE''\<rparr>,
       CallCreate (Resource (Meta ''x'' ''ns1'' None None)),
       CallNewOperation, CallWaitFor 30, CallOnReceive])
   \<and> reaches_gate sampleHandler [''foo''] (sampleRequest ''POST'' ''/foo'' [] ''x'') sampleStorage
   \<and> length (filter is_admit
       [CallReadBody, CallDecodeInto ''x'',
        CallAdmit \<lparr>GetObject = Some (Resource (Meta ''x'' ''ns1'' None None)),
          GetNamespace = ''ns1'', GetKind = ''foo'', GetOperation = ''CREATE''\<rparr>,
        CallCreate (Resource (Meta ''x'' ''ns1'' None None)),
        CallNewOperation, CallWaitFor 30, CallOnReceive]) = 1
   \<and> handleRESTStorage sampleDeps sampleHandler [''foo'', ''bar'']
     (sampleRequest ''DELETE'' ''/foo/bar'' [] []) sampleStorage ''closed'' ''foo'' =
     (Returns 500 (ErrorJSON (Failure ''denied'')),
      [CallAdmit \<lparr>GetObject = None, GetNamespace = ''closed'', GetKind = ''foo'',
         GetOperation = ''DELETE''\<rparr>])"
proof -
  have run: "handleRESTStorage sampleDeps sampleHandler [''foo'']
     (sampleRequest ''POST'' ''/foo'' [] ''x'') sampleStorage ''ns1'' ''foo'' =
     (Returns 201 (WriteJSON 201 (Resource (Meta ''x'' ''ns1''
        (Some \<lparr>Host = [], Path = ''/api/v1beta1/foo/x'',
                RawQuery = [(''namespace'', ''ns1'')], Fragment = []\<rparr>) None))),
      [CallReadBody, CallDecodeInto ''x'',
       CallAdmit \<lparr>GetObject = Some (Resource (Meta ''x'' ''ns1'' None None)),
         GetNamespace = ''ns1'', GetKind = ''foo'', GetOperation = ''CREATE''\<rparr>,
       CallCreate (Resource (Meta ''x'' ''ns1'' None None)),
       CallNewOperation, CallWaitFor 30, CallOnReceive])"
    by (simp add: handle_POST sample_defs run_defs)
  have reached: "reaches_gate sampleHandler [''foo'']
      (sampleRequest ''POST'' ''/foo'' [] ''x'') sampleStorage"
    by (simp add: reaches_gate_def route_def mutating_def capable_def decoded_def sample_defs)
  have denied: "handleRESTStorage sampleDeps sampleHandler [''foo'', ''bar'']
     (sampleRequest ''DELETE'' ''/foo/bar'' [] []) sampleStorage ''closed'' ''foo'' =
     (Returns 500 (ErrorJSON (Failure ''denied'')),
      [CallAdmit \<lparr>GetObject = None, GetNamespace = ''closed'', GetKind = ''foo'',
         GetOperation = ''DELETE''\<rparr>])"
    by (simp add: handle_DELETE sample_defs run_defs)
  from admission_gate_discipline [OF run] reached
  have once: "length (filter is_admit
       [CallReadBody, CallDecodeInto ''x'',
        CallAdmit \<lparr>GetObject = Some (Resource (Meta ''x'' ''ns1'' None None)),
          GetNamespace = ''ns1'', GetKind = ''foo'', GetOperation = ''CREATE''\<rparr>,
        CallCreate (Resource (Meta ''x'' ''ns1'' None None)),
        CallNewOperation, CallWaitFor 30, CallOnReceive]) = 1"
    by simp
  from run reached once denied show ?thesis
    by (intro conjI)
qed

text \<open>
  As stated, with the admission controller invoked exactly once for every mutating
  action, claim C4 fails: a Delete on a storage without the Deleter capability is answered
  with "method not supported" before the admission controller is asked.
\<close>

theorem admission_gate_counterexample:
  "route (Method (sampleRequest ''DELETE'' ''/foo/bar'' [] [])) (length [''foo'', ''bar''])
     = Some ActDelete
   \<and> handleRESTStorage sampleDeps sampleHandler [''foo'', ''bar'']
       (sampleRequest ''DELETE'' ''/foo/bar'' [] []) bareStorage ''ns1'' ''foo'' =
     (Returns 405 (ErrorJSON (MethodNotSupported ''foo'' ''delete'')), [])
   \<and> length (filter is_admit (snd (handleRESTStorage sampleDeps sampleHandler [''foo'', ''bar'']
       (sampleRequest ''DELETE'' ''/foo/bar'' [] []) bareStorage ''ns1'' ''foo''))) \<noteq> 1"
  by (simp add: handle_DELETE route_def sampleRequest_def sampleDeps_def bareStorage_def
      errorJSON_def)

section \<open>The namespace in the self-link\<close>

text \<open>
  Claim C5. For an object whose namespace accessor returns a non-empty namespace, both
  self-link functions give the self-linker a URL whose query is the one parameter
  \<^verbatim>\<open>namespace\<close> with that namespace exactly when the first segment of the path of the
  request is not \<^verbatim>\<open>ns\<close>; when the first segment is \<^verbatim>\<open>ns\<close> the query is empty. The URL is the
  argument of \<^verbatim>\<open>SetSelfLink\<close> below: the URL of the request with the joined path, that
  query and no fragment.
\<close>

theorem namespace_query_parameter:
  assumes "Namespace (selfLinker h) obj = Inr namespace"
    and "namespace \<noteq> []"
    and "splitPath (Path (URL req)) = part0 # rest"
  shows "setSelfLink D h obj req =
           (case SetSelfLink (selfLinker h) obj
                   \<lparr>Host = Host (URL req),
                    Path = path_Join [canonicalPrefix h, Path (URL req)],
                    RawQuery = (if part0 \<noteq> ''ns'' then [(''namespace'', namespace)] else []),
                    Fragment = []\<rparr> of
              Inl err \<Rightarrow> Err err obj
            | Inr obj' \<Rightarrow> setSelfLinkList D h obj' req)
       \<and> (\<forall>name. Name (selfLinker h) obj = Inr name \<longrightarrow>
            setSelfLinkAddName h obj req =
              (case SetSelfLink (selfLinker h) obj
                      \<lparr>Host = Host (URL req),
                       Path = path_Join [canonicalPrefix h, Path (URL req), name],
                       RawQuery = (if part0 \<noteq> ''ns'' then [(''namespace'', namespace)] else []),
                       Fragment = []\<rparr> of
                 Inl err \<Rightarrow> Err err obj
               | Inr obj' \<Rightarrow> Ok obj'))"
  using assms by (cases "URL req") (simp add: setSelfLink_def setSelfLinkAddName_def Let_def)

theorem namespace_query_parameter_witness:
  "setSelfLink sampleDeps sampleHandler (Resource (Meta ''bar'' ''ns1'' None None))
     (sampleRequest ''GET'' ''/foo/bar'' [] []) =
     Ok (Resource (Meta ''bar'' ''ns1''
           (Some \<lparr>Host = [], Path = ''/api/v1beta1/foo/bar'',
                   RawQuery = [(''namespace'', ''ns1'')], Fragment = []\<rparr>) None))
   \<and> setSelfLink sampleDeps sampleHandler (Resource (Meta ''bar'' ''ns1'' None None))
     (sampleRequest ''GET'' ''/ns/ns1/foo/bar'' [] []) =
     Ok (Resource (Meta ''bar'' ''ns1''
           (Some \<lparr>Host = [], Path = ''/api/v1beta1/ns/ns1/foo/bar'',
                   RawQuery = [], Fragment = []\<rparr>) None))"
  using namespace_query_parameter [of sampleHandler "Resource (Meta ''bar'' ''ns1'' None None)"
      "''ns1''" "sampleRequest ''GET'' ''/foo/bar'' [] []" "''foo''" "[''bar'']" sampleDeps]
    namespace_query_parameter [of sampleHandler "Resource (Meta ''bar'' ''ns1'' None None)"
      "''ns1''" "sampleRequest ''GET'' ''/ns/ns1/foo/bar'' [] []" "''ns''"
      "[''ns1'', ''foo'', ''bar'']" sampleDeps]
  by (simp add: sampleHandler_def sampleLinker_def sampleRequest_def sampleDeps_def
      splitPath_foo_bar splitPath_ns_foo_bar path_Join_foo_bar path_Join_ns_foo_bar
      setSelfLinkList_def)

section \<open>The items of a list\<close>

text \<open>
  Claim C6, as amended. When the plain rewrite \<^verbatim>\<open>setSelfLink\<close> (the rewrite of List and
  Get, and the callback of Update) returns without an error and the object, with its own
  link set, is a list, the items were extracted from the list, the item at every index was
  given to \<^verbatim>\<open>setSelfLinkAddName\<close> once, and the item it left stands at the same index of the
  sequence that \<^verbatim>\<open>runtime.SetList\<close> writes back: no item is skipped, none is linked twice,
  and the number and the order of the items are kept. The append-name rewrite
  \<^verbatim>\<open>setSelfLinkAddName\<close>, the callback of Create, has no step over the items: when it returns
  without an error the object is what \<^verbatim>\<open>SetSelfLink\<close> returned for the object's own link.
\<close>

theorem every_member_linked_once:
  "(setSelfLink D h obj req = Ok obj''
    \<longrightarrow> (\<exists>ns u obj'.
           Namespace (selfLinker h) obj = Inr ns
         \<and> link_url h req [] ns = Some u
         \<and> SetSelfLink (selfLinker h) obj u = Inr obj'
         \<and> (if IsListType D obj'
            then \<exists>items items'. ExtractList D obj' = Inr items
                   \<and> length items' = length items
                   \<and> (\<forall>i < length items.
                         setSelfLinkAddName h (items ! i) req = Ok (items' ! i))
                   \<and> SetList D (inPlace D obj' items') items' = Inr obj''
            else obj'' = obj')))
   \<and> (setSelfLinkAddName h obj req = Ok obj''
    \<longrightarrow> (\<exists>name ns u.
           Name (selfLinker h) obj = Inr name
         \<and> Namespace (selfLinker h) obj = Inr ns
         \<and> link_url h req [name] ns = Some u
         \<and> SetSelfLink (selfLinker h) obj u = Inr obj''))"
proof (intro conjI impI)
  assume "setSelfLink D h obj req = Ok obj''"
  then obtain ns u obj' where own: "Namespace (selfLinker h) obj = Inr ns"
      "link_url h req [] ns = Some u" "SetSelfLink (selfLinker h) obj u = Inr obj'"
    and rest: "setSelfLinkList D h obj' req = Ok obj''"
    by (auto simp add: setSelfLink_link_url split: sum.splits option.splits)
  have "if IsListType D obj'
        then \<exists>items items'. ExtractList D obj' = Inr items
               \<and> length items' = length items
               \<and> (\<forall>i < length items.
                     setSelfLinkAddName h (items ! i) req = Ok (items' ! i))
               \<and> SetList D (inPlace D obj' items') items' = Inr obj''
        else obj'' = obj'"
  proof (cases "IsListType D obj'")
    case False
    with rest show ?thesis
      by (auto simp add: setSelfLinkList_def)
  next
    case True
    with rest obtain items items' where ex: "ExtractList D obj' = Inr items"
      and loop: "setSelfLinkItems h items req = Ok items'"
      and written: "SetList D (inPlace D obj' items') items' = Inr obj''"
      by (auto simp add: setSelfLinkList_def split: sum.splits ret.splits)
    from loop have "length items' = length items"
      and "\<forall>i < length items. setSelfLinkAddName h (items ! i) req = Ok (items' ! i)"
      by (simp_all add: setSelfLinkItems_Ok_nth)
    with True ex written show ?thesis
      by auto
  qed
  with own show "\<exists>ns u obj'.
           Namespace (selfLinker h) obj = Inr ns
         \<and> link_url h req [] ns = Some u
         \<and> SetSelfLink (selfLinker h) obj u = Inr obj'
         \<and> (if IsListType D obj'
            then \<exists>items items'. ExtractList D obj' = Inr items
                   \<and> length items' = length items
                   \<and> (\<forall>i < length items.
                         setSelfLinkAddName h (items ! i) req = Ok (items' ! i))
                   \<and> SetList D (inPlace D obj' items') items' = Inr obj''
            else obj'' = obj')"
    by blast
next
  assume "setSelfLinkAddName h obj req = Ok obj''"
  then show "\<exists>name ns u.
           Name (selfLinker h) obj = Inr name
         \<and> Namespace (selfLinker h) obj = Inr ns
         \<and> link_url h req [name] ns = Some u
         \<and> SetSelfLink (selfLinker h) obj u = Inr obj''"
    by (auto simp add: setSelfLinkAddName_link_url split: sum.splits option.splits)
qed

text \<open>
  On the sample server: the plain rewrite of a list of two items, and the append-name
  rewrite of the list that the creation of \<^verbatim>\<open>batch\<close> answers with, whose items it leaves
  without a link.
\<close>

theorem every_member_linked_once_witness:
  "setSelfLink sampleDeps sampleHandler sampleList (sampleRequest ''GET'' ''/foo'' [] []) =
     Ok sampleListLinked
   \<and> (\<exists>ns u obj'.
        Namespace (selfLinker sampleHandler) sampleList = Inr ns
      \<and> link_url sampleHandler (sampleRequest ''GET'' ''/foo'' [] []) [] ns = Some u
      \<and> SetSelfLink (selfLinker sampleHandler) sampleList u = Inr obj'
      \<and> (if IsListType sampleDeps obj'
         then \<exists>items items'. ExtractList sampleDeps obj' = Inr items
                \<and> length items' = length items
                \<and> (\<forall>i < length items.
                      setSelfLinkAddName sampleHandler (items ! i)
                        (sampleRequest ''GET'' ''/foo'' [] []) = Ok (items' ! i))
                \<and> SetList sampleDeps (inPlace sampleDeps obj' items') items' =
                    Inr sampleListLinked
         else sampleListLinked = obj'))
   \<and> setSelfLinkAddName sampleHandler
       (Resource (Meta ''batch'' ''ns1'' None
          (Some [Meta ''a'' ''ns1'' None None, Meta ''b'' ''ns1'' None None])))
       (sampleRequest ''POST'' ''/foo'' [] ''batch'') =
     Ok (Resource (Meta ''batch'' ''ns1''
          (Some \<lparr>Host = [], Path = ''/api/v1beta1/foo/batch'',
                  RawQuery = [(''namespace'', ''ns1'')], Fragment = []\<rparr>)
          (Some [Meta ''a'' ''ns1'' None None, Meta ''b'' ''ns1'' None None])))
   \<and> (\<exists>name ns u.
        Name (selfLinker sampleHandler)
          (Resource (Meta ''batch'' ''ns1'' None
             (Some [Meta ''a'' ''ns1'' None None, Meta ''b'' ''ns1'' None None]))) = Inr name
      \<and> Namespace (selfLinker sampleHandler)
          (Resource (Meta ''batch'' ''ns1'' None
             (Some [Meta ''a'' ''ns1'' None None, Meta ''b'' ''ns1'' None None]))) = Inr ns
      \<and> link_url sampleHandler (sampleRequest ''POST'' ''/foo'' [] ''batch'') [name] ns = Some u
      \<and> SetSelfLink (selfLinker sampleHandler)
          (Resource (Meta ''batch'' ''ns1'' None
             (Some [Meta ''a'' ''ns1'' None None, Meta ''b'' ''ns1'' None None]))) u =
        Inr (Resource (Meta ''batch'' ''ns1''
          (Some \<lparr>Host = [], Path = ''/api/v1beta1/foo/batch'',
                  RawQuery = [(''namespace'', ''ns1'')], Fragment = []\<rparr>)
          (Some [Meta ''a'' ''ns1'' None None, Meta ''b'' ''ns1'' None None]))))"
proof -
  have run: "setSelfLink sampleDeps sampleHandler sampleList
               (sampleRequest ''GET'' ''/foo'' [] []) = Ok sampleListLinked"
    by (simp add: setSelfLink_def setSelfLinkList_def setSelfLinkAddName_def Let_def
        sampleList_def sampleListLinked_def
        sampleHandler_def sampleLinker_def sampleRequest_def sampleDeps_def
        splitPath_foo path_Join_foo path_Join_foo_a path_Join_foo_b)
  have named: "setSelfLinkAddName sampleHandler
       (Resource (Meta ''batch'' ''ns1'' None
          (Some [Meta ''a'' ''ns1'' None None, Meta ''b'' ''ns1'' None None])))
       (sampleRequest ''POST'' ''/foo'' [] ''batch'') =
     Ok (Resource (Meta ''batch'' ''ns1''
          (Some \<lparr>Host = [], Path = ''/api/v1beta1/foo/batch'',
                  RawQuery = [(''namespace'', ''ns1'')], Fragment = []\<rparr>)
          (Some [Meta ''a'' ''ns1'' None None, Meta ''b'' ''ns1'' None None])))"
    by (simp add: sample_defs run_defs)
  note linked = every_member_linked_once [THEN conjunct1, THEN mp, OF run]
  note own = every_member_linked_once [THEN conjunct2, THEN mp, OF named]
  from run linked named own show ?thesis
    by (intro conjI)
qed

text \<open>
  As stated, for every list, claim C6 fails: the loop over the items returns at the first
  item whose link cannot be set. In a list whose second item has no name the third item is
  never linked and nothing is written back; and the update of \<^verbatim>\<open>all\<close>, whose hook fails on
  the first item, answers with a list whose second item has no self-link. The creation of
  \<^verbatim>\<open>batch\<close> answers with a list, without an error in the log, and no item of the list has a
  self-link: the callback of Create is \<^verbatim>\<open>setSelfLinkAddName\<close>, which does not look at the
  items.
\<close>

theorem every_member_linked_once_counterexample:
  "IsListType sampleDeps
     (Resource (Meta [] [] None (Some [Meta ''a'' [] None None, Opaque, Meta ''b'' [] None None])))
   \<and> setSelfLinkItems sampleHandler
       [Resource (Meta ''a'' [] None None), Resource Opaque, Resource (Meta ''b'' [] None None)]
       (sampleRequest ''GET'' ''/foo'' [] []) =
     Err (Failure ''no name'')
       [Resource (Meta ''a'' []
          (Some \<lparr>Host = [], Path = ''/api/v1beta1/foo/a'', RawQuery = [], Fragment = []\<rparr>) None),
        Resource Opaque, Resource (Meta ''b'' [] None None)]
   \<and> setSelfLink sampleDeps sampleHandler
       (Resource (Meta [] [] None (Some [Meta ''a'' [] None None, Opaque, Meta ''b'' [] None None])))
       (sampleRequest ''GET'' ''/foo'' [] []) =
     Err (Failure ''no name'')
       (Resource (Meta [] []
          (Some \<lparr>Host = [], Path = ''/api/v1beta1/foo'', RawQuery = [], Fragment = []\<rparr>)
          (Some [Meta ''a'' []
                   (Some \<lparr>Host = [], Path = ''/api/v1beta1/foo/a'', RawQuery = [],
                           Fragment = []\<rparr>) None,
                 Opaque, Meta ''b'' [] None None])))
   \<and> fst (handleRESTStorage sampleDeps sampleHandler [''foo'', ''all'']
       (sampleRequest ''PUT'' ''/foo/all'' [] ''all'') sampleStorage ''ns1'' ''foo'') =
     Returns 200 (WriteJSON 200 (Resource (Meta ''all'' ''ns1''
        (Some \<lparr>Host = [], Path = ''/api/v1beta1/foo/all'',
                RawQuery = [(''namespace'', ''ns1'')], Fragment = []\<rparr>)
        (Some [Opaque, Meta ''a'' ''ns1'' None None]))))
   \<and> IsListType sampleDeps
       (Resource (Meta ''batch'' ''ns1''
          (Some \<lparr>Host = [], Path = ''/api/v1beta1/foo/batch'',
                  RawQuery = [(''namespace'', ''ns1'')], Fragment = []\<rparr>)
          (Some [Meta ''a'' ''ns1'' None None, Meta ''b'' ''ns1'' None None])))
   \<and> handleRESTStorage sampleDeps sampleHandler [''foo'']
       (sampleRequest ''POST'' ''/foo'' [] ''batch'') sampleStorage ''ns1'' ''foo'' =
     (Returns 201 (WriteJSON 201 (Resource (Meta ''batch'' ''ns1''
        (Some \<lparr>Host = [], Path = ''/api/v1beta1/foo/batch'',
                RawQuery = [(''namespace'', ''ns1'')], Fragment = []\<rparr>)
        (Some [Meta ''a'' ''ns1'' None None, Meta ''b'' ''ns1'' None None])))),
      [CallReadBody, CallDecodeInto ''batch'',
       CallAdmit \<lparr>GetObject = Some (Resource (Meta ''batch'' ''ns1'' None None)),
         GetNamespace = ''ns1'', GetKind = ''foo'', GetOperation = ''CREATE''\<rparr>,
       CallCreate (Resource (Meta ''batch'' ''ns1'' None None)),
       CallNewOperation, CallWaitFor 30, CallOnReceive])"
  by (simp add: handle_PUT handle_POST sample_defs run_defs)

section \<open>One completion path\<close>

text \<open>
  Claim C7. Create, Update and Delete hand the channel of the backend to the operation
  registry with the timeout parsed from the query of the request, and from there on the
  three requests are the one completion orchestrator of the spec, \<open>spec_completion\<close>: a
  result that arrives within the parsed timeout is answered with its completion status, a
  later one or none with "accepted" and the placeholder. The calls differ in the callback
  only: \<^verbatim>\<open>setSelfLinkAddName\<close> for Create, \<^verbatim>\<open>setSelfLink\<close> for Update, none for Delete.
\<close>

theorem mutations_share_completion:
  "(Method req = ''POST'' \<and> length parts = 1
      \<and> Creater storage = Some creater
      \<and> Body req = Inr body \<and> codec h body (New storage) = Inr obj
      \<and> admissionControl h \<lparr>GetObject = Some obj, GetNamespace = namespace,
            GetKind = parts ! 0, GetOperation = ''CREATE''\<rparr> = None
      \<and> creater namespace obj = Inr out
    \<longrightarrow> handleRESTStorage D h parts req storage namespace kind =
          after [CallReadBody, CallDecodeInto body,
                 CallAdmit \<lparr>GetObject = Some obj, GetNamespace = namespace,
                   GetKind = parts ! 0, GetOperation = ''CREATE''\<rparr>,
                 CallCreate obj]
            (spec_completion h out (parseTimeout D (Get (RawQuery (URL req)) ''timeout''))
               (Some (curry_hook (setSelfLinkAddName h) req))))
   \<and> (Method req = ''PUT'' \<and> length parts = 2
      \<and> Updater storage = Some updater
      \<and> Body req = Inr body \<and> codec h body (New storage) = Inr obj
      \<and> admissionControl h \<lparr>GetObject = Some obj, GetNamespace = namespace,
            GetKind = parts ! 0, GetOperation = ''UPDATE''\<rparr> = None
      \<and> updater namespace obj = Inr out
    \<longrightarrow> handleRESTStorage D h parts req storage namespace kind =
          after [CallReadBody, CallDecodeInto body,
                 CallAdmit \<lparr>GetObject = Some obj, GetNamespace = namespace,
                   GetKind = parts ! 0, GetOperation = ''UPDATE''\<rparr>,
                 CallUpdate obj]
            (spec_completion h out (parseTimeout D (Get (RawQuery (URL req)) ''timeout''))
               (Some (curry_hook (setSelfLink D h) req))))
   \<and> (Method req = ''DELETE'' \<and> length parts = 2
      \<and> Deleter storage = Some deleter
      \<and> admissionControl h \<lparr>GetObject = None, GetNamespace = namespace,
            GetKind = parts ! 0, GetOperation = ''DELETE''\<rparr> = None
      \<and> deleter namespace (parts ! 1) = Inr out
    \<longrightarrow> handleRESTStorage D h parts req storage namespace kind =
          after [CallAdmit \<lparr>GetObject = None, GetNamespace = namespace,
                   GetKind = parts ! 0, GetOperation = ''DELETE''\<rparr>,
                 CallDelete (parts ! 1)]
            (spec_completion h out (parseTimeout D (Get (RawQuery (URL req)) ''timeout''))
               None))"
  by (simp add: handle_POST handle_PUT handle_DELETE completion_spec)

text \<open>
  On the sample server: a creation that is answered at once, the update of \<^verbatim>\<open>slow\<close> under a
  timeout of 5, which expires before the backend answers, the same update under the
  default timeout, and a deletion.
\<close>

theorem mutations_share_completion_witness:
  "handleRESTStorage sampleDeps sampleHandler [''foo'']
     (sampleRequest ''POST'' ''/foo'' [(''timeout'', ''5s'')] ''x'') sampleStorage ''ns1'' ''foo'' =
     (Returns 201 (WriteJSON 201 (Resource (Meta ''x'' ''ns1''
        (Some \<lparr>Host = [], Path = ''/api/v1beta1/foo/x'',
                RawQuery = [(''namespace'', ''ns1'')], Fragment = []\<rparr>) None))),
      [CallReadBody, CallDecodeInto ''x'',
       CallAdmit \<lparr>GetObject = Some (Resource (Meta ''x'' ''ns1'' None None)),
         GetNamespace = ''ns1'', GetKind = ''foo'', GetOperation = ''CREATE''\<rparr>,
       CallCreate (Resource (Meta ''x'' ''ns1'' None None)),
       CallNewOperation, CallWaitFor 5, CallOnReceive])
   \<and> handleRESTStorage sampleDeps sampleHandler [''foo'', ''slow'']
     (sampleRequest ''PUT'' ''/foo/slow'' [(''timeout'', ''5s'')] ''slow'') sampleStorage
     ''ns1'' ''foo'' =
     (Returns 202 (WriteJSON 202 (StatusObject \<lparr>Status = ''working'', Code = 0,
        Reason = ''working'', Details_ID = 1, Details_Kind = ''operation''\<rparr>)),
      [CallReadBody, CallDecodeInto ''slow'',
       CallAdmit \<lparr>GetObject = Some (Resource (Meta ''slow'' ''ns1'' None None)),
         GetNamespace = ''ns1'', GetKind = ''foo'', GetOperation = ''UPDATE''\<rparr>,
       CallUpdate (Resource (Meta ''slow'' ''ns1'' None None)),
       CallNewOperation, CallWaitFor 5])
   \<and> handleRESTStorage sampleDeps sampleHandler [''foo'', ''slow'']
     (sampleRequest ''PUT'' ''/foo/slow'' [] ''slow'') sampleStorage ''ns1'' ''foo'' =
     (Returns 200 (WriteJSON 200 (Resource (Meta ''slow'' ''ns1''
        (Some \<lparr>Host = [], Path = ''/api/v1beta1/foo/slow'',
                RawQuery = [(''namespace'', ''ns1'')], Fragment = []\<rparr>) None))),
      [CallReadBody, CallDecodeInto ''slow'',
       CallAdmit \<lparr>GetObject = Some (Resource (Meta ''slow'' ''ns1'' None None)),
         GetNamespace = ''ns1'', GetKind = ''foo'', GetOperation = ''UPDATE''\<rparr>,
       CallUpdate (Resource (Meta ''slow'' ''ns1'' None None)),
       CallNewOperation, CallWaitFor 30, CallOnReceive])
   \<and> handleRESTStorage sampleDeps sampleHandler [''foo'', ''x'']
     (sampleRequest ''DELETE'' ''/foo/x'' [] []) sampleStorage ''ns1'' ''foo'' =
     (Returns 200 (WriteJSON 200 (StatusObject \<lparr>Status = ''success'', Code = 0, Reason = [],
        Details_ID = 0, Details_Kind = []\<rparr>)),
      [CallAdmit \<lparr>GetObject = None, GetNamespace = ''ns1'', GetKind = ''foo'',
         GetOperation = ''DELETE''\<rparr>,
       CallDelete ''x'', CallNewOperation, CallWaitFor 30])"
  using mutations_share_completion [where req = "sampleRequest ''POST'' ''/foo'' [(''timeout'', ''5s'')] ''x''"
      and parts = "[''foo'']" and storage = sampleStorage and h = sampleHandler
      and D = sampleDeps and namespace = "''ns1''" and kind = "''foo''"
      and creater = "the (Creater sampleStorage)" and body = "''x''"
      and obj = "Resource (Meta ''x'' ''ns1'' None None)"
      and out = "Delivers 0 \<lparr>Object = Resource (Meta ''x'' ''ns1'' None None), Created = True\<rparr>",
      THEN conjunct1]
    mutations_share_completion [where req = "sampleRequest ''PUT'' ''/foo/slow'' [(''timeout'', ''5s'')] ''slow''"
      and parts = "[''foo'', ''slow'']" and storage = sampleStorage and h = sampleHandler
      and D = sampleDeps and namespace = "''ns1''" and kind = "''foo''"
      and updater = "the (Updater sampleStorage)" and body = "''slow''"
      and obj = "Resource (Meta ''slow'' ''ns1'' None None)"
      and out = "Delivers 10 \<lparr>Object = Resource (Meta ''slow'' ''ns1'' None None), Created = False\<rparr>",
      THEN conjunct2, THEN conjunct1]
    mutations_share_completion [where req = "sampleRequest ''PUT'' ''/foo/slow'' [] ''slow''"
      and parts = "[''foo'', ''slow'']" and storage = sampleStorage and h = sampleHandler
      and D = sampleDeps and namespace = "''ns1''" and kind = "''foo''"
      and updater = "the (Updater sampleStorage)" and body = "''slow''"
      and obj = "Resource (Meta ''slow'' ''ns1'' None None)"
      and out = "Delivers 10 \<lparr>Object = Resource (Meta ''slow'' ''ns1'' None None), Created = False\<rparr>",
      THEN conjunct2, THEN conjunct1]
    mutations_share_completion [where req = "sampleRequest ''DELETE'' ''/foo/x'' [] []"
      and parts = "[''foo'', ''x'']" and storage = sampleStorage and h = sampleHandler
      and D = sampleDeps and namespace = "''ns1''" and kind = "''foo''"
      and deleter = "the (Deleter sampleStorage)"
      and out = "Delivers 0 \<lparr>Object = StatusObject \<lparr>Status = ''success'', Code = 0, Reason = [],
                   Details_ID = 0, Details_Kind = []\<rparr>, Created = False\<rparr>",
      THEN conjunct2, THEN conjunct2]
  by (simp add: sample_defs spec_completion_def accepted_def completed_def placeholder_def
      completion_status_def embedded_code_def curry_hook_def setSelfLink_def
      setSelfLinkList_def setSelfLinkAddName_def Get_def Let_def
      splitPath_def trim_slashes_def path_Join_def path_Clean_def clean_step_def)

section \<open>Requests outside the routing table\<close>

text \<open>
  Claim C8. A request whose method and number of path parts are not in the routing table
  (GET with one or two parts, POST with one, PUT with two, DELETE with two) is answered
  with 404, and nothing is called: no backend method, no admission, no self-link.
\<close>

theorem unrouted_is_not_found:
  "route (Method req) (length parts) = None \<Longrightarrow>
   handleRESTStorage D h parts req storage namespace kind = (Returns 404 NotFound, [])"
  by (auto simp add: route_def handleRESTStorage_def notFound_def Let_def split: if_splits)

theorem unrouted_is_not_found_witness:
  "route (Method (sampleRequest ''GET'' ''/foo/bar/baz'' [] []))
     (length [''foo'', ''bar'', ''baz'']) = None
   \<and> handleRESTStorage sampleDeps sampleHandler [''foo'', ''bar'', ''baz'']
         (sampleRequest ''GET'' ''/foo/bar/baz'' [] []) sampleStorage ''ns1'' ''foo'' =
       (Returns 404 NotFound, [])
   \<and> route (Method (sampleRequest ''PATCH'' ''/foo'' [] [])) (length [''foo'']) = None
   \<and> handleRESTStorage sampleDeps sampleHandler [''foo'']
         (sampleRequest ''PATCH'' ''/foo'' [] []) sampleStorage ''ns1'' ''foo'' =
       (Returns 404 NotFound, [])
   \<and> route (Method (sampleRequest ''POST'' ''/foo/bar'' [] ''x'')) (length [''foo'', ''bar'']) = None
   \<and> handleRESTStorage sampleDeps sampleHandler [''foo'', ''bar'']
         (sampleRequest ''POST'' ''/foo/bar'' [] ''x'') sampleStorage ''ns1'' ''foo'' =
       (Returns 404 NotFound, [])"
  using unrouted_is_not_found [of "sampleRequest ''GET'' ''/foo/bar/baz'' [] []"
      "[''foo'', ''bar'', ''baz'']" sampleDeps sampleHandler sampleStorage "''ns1''" "''foo''"]
    unrouted_is_not_found [of "sampleRequest ''PATCH'' ''/foo'' [] []"
      "[''foo'']" sampleDeps sampleHandler sampleStorage "''ns1''" "''foo''"]
    unrouted_is_not_found [of "sampleRequest ''POST'' ''/foo/bar'' [] ''x''"
      "[''foo'', ''bar'']" sampleDeps sampleHandler sampleStorage "''ns1''" "''foo''"]
  by (simp add: route_def sampleRequest_def)

section \<open>Selectors before the Lister\<close>

text \<open>
  Claim C9. A list request parses its label selector and its field selector before it
  looks for the Lister capability: when either is malformed the request is answered with
  the error of the parser, whatever the storage is capable of, and so also on a storage
  without the Lister capability, where no "method not supported" error is built.
\<close>

theorem selector_parsed_before_lister:
  assumes "Method req = ''GET''" and "length parts = 1"
    and "ParseSelector D (Get (RawQuery (URL req)) ''labels'') = Inl err
         \<or> (\<exists>label. ParseSelector D (Get (RawQuery (URL req)) ''labels'') = Inr label
              \<and> ParseSelector D (Get (RawQuery (URL req)) ''fields'') = Inl err)"
  shows "fst (handleRESTStorage D h parts req storage namespace kind) = errorJSON D err
       \<and> filter is_backend_call
           (snd (handleRESTStorage D h parts req storage namespace kind)) = []"
  using assms by (auto simp add: handle_LIST)

theorem selector_parsed_before_lister_witness:
  "Lister bareStorage = None
   \<and> ParseSelector sampleDeps
        (Get (RawQuery (URL (sampleRequest ''GET'' ''/foo'' [(''labels'', ''a!'')] []))) ''labels'') =
       Inl (Failure ''bad selector'')
   \<and> handleRESTStorage sampleDeps sampleHandler [''foo'']
        (sampleRequest ''GET'' ''/foo'' [(''labels'', ''a!'')] []) bareStorage ''ns1'' ''foo'' =
       (Returns 500 (ErrorJSON (Failure ''bad selector'')), [CallParseSelector ''a!''])"
proof -
  have none: "Lister bareStorage = None"
    by (simp add: bareStorage_def)
  have bad: "ParseSelector sampleDeps
        (Get (RawQuery (URL (sampleRequest ''GET'' ''/foo'' [(''labels'', ''a!'')] []))) ''labels'') =
       Inl (Failure ''bad selector'')"
    by (simp add: sampleRequest_def sampleDeps_def Get_def)
  have tr: "snd (handleRESTStorage sampleDeps sampleHandler [''foo'']
        (sampleRequest ''GET'' ''/foo'' [(''labels'', ''a!'')] []) bareStorage ''ns1'' ''foo'') =
       [CallParseSelector ''a!'']"
    by (simp add: handle_LIST sampleRequest_def sampleDeps_def Get_def)
  from selector_parsed_before_lister [of "sampleRequest ''GET'' ''/foo'' [(''labels'', ''a!'')] []"
      "[''foo'']" sampleDeps "Failure ''bad selector''" sampleHandler bareStorage "''ns1''" "''foo''"]
    bad
  have "fst (handleRESTStorage sampleDeps sampleHandler [''foo'']
        (sampleRequest ''GET'' ''/foo'' [(''labels'', ''a!'')] []) bareStorage ''ns1'' ''foo'') =
       Returns 500 (ErrorJSON (Failure ''bad selector''))"
    by (simp add: sampleRequest_def sampleDeps_def errorJSON_def)
  with tr have "handleRESTStorage sampleDeps sampleHandler [''foo'']
        (sampleRequest ''GET'' ''/foo'' [(''labels'', ''a!'')] []) bareStorage ''ns1'' ''foo'' =
       (Returns 500 (ErrorJSON (Failure ''bad selector'')), [CallParseSelector ''a!''])"
    by (simp add: prod_eq_iff)
  with none bad show ?thesis
    by (intro conjI)
qed

section \<open>The first segment of the path\<close>

text \<open>
  Claim C10. Both self-link functions read the first segment of the split path of the
  request whenever the namespace of the object is not empty, and under no other guard:
  with a non-empty namespace and a path without segments the read is out of range and the
  function panics, and a panic of either function means that the path has no segment.
  The empty path has no segment.
\<close>

theorem first_segment_needs_a_segment:
  "(setSelfLinkAddName h obj req = Panic \<longleftrightarrow>
      (\<exists>name namespace. Name (selfLinker h) obj = Inr name
         \<and> Namespace (selfLinker h) obj = Inr namespace \<and> namespace \<noteq> []
         \<and> splitPath (Path (URL req)) = []))
   \<and> ((\<exists>namespace. Namespace (selfLinker h) obj = Inr namespace \<and> namespace \<noteq> []
          \<and> splitPath (Path (URL req)) = [])
        \<longrightarrow> setSelfLink D h obj req = Panic)
   \<and> (setSelfLink D h obj req = Panic \<longrightarrow> splitPath (Path (URL req)) = [])
   \<and> splitPath [] = []"
proof (intro conjI)
  show "setSelfLinkAddName h obj req = Panic \<longleftrightarrow>
      (\<exists>name namespace. Name (selfLinker h) obj = Inr name
         \<and> Namespace (selfLinker h) obj = Inr namespace \<and> namespace \<noteq> []
         \<and> splitPath (Path (URL req)) = [])"
    by (rule setSelfLinkAddName_Panic)
  show "(\<exists>namespace. Namespace (selfLinker h) obj = Inr namespace \<and> namespace \<noteq> []
          \<and> splitPath (Path (URL req)) = [])
        \<longrightarrow> setSelfLink D h obj req = Panic"
    by (auto simp add: setSelfLink_def Let_def)
  show "setSelfLink D h obj req = Panic \<longrightarrow> splitPath (Path (URL req)) = []"
    by (simp add: setSelfLink_Panic)
  show "splitPath [] = []"
    by (rule splitPath_empty)
qed

theorem first_segment_needs_a_segment_witness:
  "setSelfLinkAddName sampleHandler (Resource (Meta ''bar'' ''ns1'' None None))
     (sampleRequest ''POST'' [] [] []) = Panic
   \<and> setSelfLink sampleDeps sampleHandler (Resource (Meta ''bar'' ''ns1'' None None))
     (sampleRequest ''GET'' [] [] []) = Panic
   \<and> setSelfLink sampleDeps sampleHandler (Resource (Meta ''bar'' [] None None))
     (sampleRequest ''GET'' [] [] []) \<noteq> Panic
   \<and> fst (handleRESTStorage sampleDeps sampleHandler [''foo'', ''bar'']
       (sampleRequest ''GET'' [] [] []) sampleStorage ''ns1'' ''foo'') = Panicked"
  using first_segment_needs_a_segment [of sampleHandler "Resource (Meta ''bar'' ''ns1'' None None)"
      "sampleRequest ''POST'' [] [] []" sampleDeps]
    first_segment_needs_a_segment [of sampleHandler "Resource (Meta ''bar'' ''ns1'' None None)"
      "sampleRequest ''GET'' [] [] []" sampleDeps]
  by (simp add: handle_GET sample_defs setSelfLink_def setSelfLinkList_def Let_def)

end
